theory Spec2Isabelle
  imports Main
begin

section \<open>JavaScript values as the handler sees them\<close>

text \<open>
  The request body, the parsed chat completion and the JSON replies of the OAuth and
  Blogger endpoints are untyped at run time (\<^verbatim>\<open>any\<close>), so the model keeps
  them as JavaScript values. A string is the list of its code units (8-bit characters
  here). A number is kept as its \<^verbatim>\<open>ToString\<close> text, which is all the handler
  observes of a number: it interpolates it into a template literal or tests it for
  truthiness.
\<close>

datatype jsval =
    JUndefined
  | JNull
  | JBool bool
  | JNum string
  | JStr string
  | JArr "jsval list"
  | JObj "(string \<times> jsval) list"

text \<open>A thrown value; the handler reads nothing of it but \<^verbatim>\<open>err.message\<close>
  (the empty message also stands for a thrown value with no message).\<close>

datatype exn = Exn (message: string)

text \<open>\<^verbatim>\<open>!x\<close> is \<open>\<not> truthy x\<close>.\<close>

fun truthy :: "jsval \<Rightarrow> bool" where
  "truthy JUndefined = False"
| "truthy JNull = False"
| "truthy (JBool b) = b"
| "truthy (JNum s) = (s \<noteq> ''0'' \<and> s \<noteq> ''NaN'')"
| "truthy (JStr s) = (s \<noteq> [])"
| "truthy (JArr xs) = True"
| "truthy (JObj kvs) = True"

text \<open>\<^verbatim>\<open>a || b\<close>\<close>

definition js_or :: "jsval \<Rightarrow> jsval \<Rightarrow> jsval" where
  "js_or a b = (if truthy a then a else b)"

text \<open>
  Property read \<^verbatim>\<open>x.k\<close>. Reading a property of \<^verbatim>\<open>undefined\<close> or
  \<^verbatim>\<open>null\<close> throws a TypeError. An object made by a JSON parser has own data
  properties only. None of the names this program reads (type, text, link, voiceUrl,
  postToBlogger, title, html, error, message, access_token, url, id) is inherited by
  a parsed object, an array, a number or a boolean, and the only one a string inherits
  (link) is read from the request body after its \<^verbatim>\<open>type\<close> was found to be a
  string, which a string body never has.
\<close>

fun get_prop :: "jsval \<Rightarrow> string \<Rightarrow> exn + jsval" where
  "get_prop JUndefined k =
     Inl (Exn (''Cannot read properties of undefined (reading '' @ [CHR 0x27] @ k @ [CHR 0x27] @ '')''))"
| "get_prop JNull k =
     Inl (Exn (''Cannot read properties of null (reading '' @ [CHR 0x27] @ k @ [CHR 0x27] @ '')''))"
| "get_prop (JObj kvs) k = Inr (case map_of kvs k of None \<Rightarrow> JUndefined | Some v \<Rightarrow> v)"
| "get_prop v k = Inr JUndefined"

text \<open>Optional chaining \<^verbatim>\<open>x?.k\<close>.\<close>

fun get_opt :: "jsval \<Rightarrow> string \<Rightarrow> jsval" where
  "get_opt (JObj kvs) k = (case map_of kvs k of None \<Rightarrow> JUndefined | Some v \<Rightarrow> v)"
| "get_opt v k = JUndefined"

text \<open>
  String conversion in a template literal, \<^verbatim>\<open>`${x}`\<close>. An array joins its
  elements with commas, \<^verbatim>\<open>undefined\<close> and \<^verbatim>\<open>null\<close> elements giving the
  empty string. A parsed object prints as \<^verbatim>\<open>[object Object]\<close> unless an own
  property \<^verbatim>\<open>toString\<close> (never callable in parsed JSON) hides the inherited
  method: then the conversion throws a TypeError.
\<close>

fun join_comma :: "string list \<Rightarrow> string" where
  "join_comma [] = []"
| "join_comma [s] = s"
| "join_comma (s # t # ss) = s @ '','' @ join_comma (t # ss)"

fun collect :: "(exn + 'a) list \<Rightarrow> exn + 'a list" where
  "collect [] = Inr []"
| "collect (Inl e # rs) = Inl e"
| "collect (Inr x # rs) = (case collect rs of Inl e \<Rightarrow> Inl e | Inr xs \<Rightarrow> Inr (x # xs))"

fun to_string :: "jsval \<Rightarrow> exn + string" where
  "to_string JUndefined = Inr ''undefined''"
| "to_string JNull = Inr ''null''"
| "to_string (JBool b) = Inr (if b then ''true'' else ''false'')"
| "to_string (JNum s) = Inr s"
| "to_string (JStr s) = Inr s"
| "to_string (JArr xs) =
     (case collect (map (\<lambda>x. if x = JUndefined \<or> x = JNull then Inr [] else to_string x) xs) of
        Inl e \<Rightarrow> Inl e
      | Inr ss \<Rightarrow> Inr (join_comma ss))"
| "to_string (JObj kvs) =
     (if ''toString'' \<in> fst ` set kvs
      then Inl (Exn ''Cannot convert object to primitive value'')
      else Inr ''[object Object]'')"

text \<open>A number (an HTTP status) in a template literal: its decimal digits.\<close>

fun string_of_nat :: "nat \<Rightarrow> string" where
  "string_of_nat n =
     (if n < 10 then [char_of (48 + n)]
      else string_of_nat (n div 10) @ [char_of (48 + n mod 10)])"

declare string_of_nat.simps [simp del]

text \<open>
  \<^verbatim>\<open>String.prototype.trim\<close> removes white space and line terminators from both
  ends: among 8-bit code units these are TAB, LF, VT, FF, CR, SPACE and NBSP.
\<close>

definition is_ws :: "char \<Rightarrow> bool" where
  "is_ws c = (c \<in> {CHR 0x09, CHR 0x0A, CHR 0x0B, CHR 0x0C, CHR 0x0D, CHR 0x20, CHR 0xA0})"

definition trim :: "string \<Rightarrow> string" where
  "trim s = rev (dropWhile is_ws (rev (dropWhile is_ws s)))"


section \<open>Effects: outbound calls, thrown values, configuration\<close>

text \<open>
  Every call the handler makes to a collaborator is an event of the trace, in the order
  the calls are made (each \<^verbatim>\<open>await\<close> finishes before the next statement
  runs). \<^verbatim>\<open>console.error\<close> in the catch block is an event too.
\<close>

datatype event =
    Fetch_link jsval
  | Fetch_voice jsval
  | Transcription "nat list"
  | Chat_completion string
  | Image_generation string
  | Token_exchange "(string \<times> string) list"
  | Blogger_insert string string jsval string
  | Console_error exn

text \<open>A computation: the calls it made, and the thrown value or the result.\<close>

type_synonym 'a io = "event list \<times> (exn + 'a)"

definition ret :: "'a \<Rightarrow> 'a io" where
  "ret x = ([], Inr x)"

definition throw :: "exn \<Rightarrow> 'a io" where
  "throw e = ([], Inl e)"

definition lift :: "exn + 'a \<Rightarrow> 'a io" where
  "lift r = ([], r)"

definition call :: "event \<Rightarrow> exn + 'a \<Rightarrow> 'a io" where
  "call ev r = ([ev], r)"

definition bind :: "'a io \<Rightarrow> ('a \<Rightarrow> 'b io) \<Rightarrow> 'b io" where
  "bind m f =
     (case m of
        (t, Inl e) \<Rightarrow> (t, Inl e)
      | (t, Inr x) \<Rightarrow> (case f x of (t', r) \<Rightarrow> (t @ t', r)))"

text \<open>\<^verbatim>\<open>process.env\<close>: a variable is a string or is not set.\<close>

record config =
  GOOGLE_CLIENT_ID :: "string option"
  GOOGLE_CLIENT_SECRET :: "string option"
  GOOGLE_REFRESH_TOKEN :: "string option"
  BLOGGER_BLOG_ID :: "string option"

text \<open>\<^verbatim>\<open>!v\<close> for an environment variable: not set, or the empty string.\<close>

definition missing :: "string option \<Rightarrow> bool" where
  "missing v = (case v of None \<Rightarrow> True | Some s \<Rightarrow> s = [])"

definition env_str :: "string option \<Rightarrow> string" where
  "env_str v = (case v of None \<Rightarrow> [] | Some s \<Rightarrow> s)"

text \<open>
  What \<^verbatim>\<open>fetch\<close> resolves to: \<^verbatim>\<open>res.ok\<close>, \<^verbatim>\<open>res.status\<close> and the
  body as the call site reads it (\<^verbatim>\<open>res.text()\<close>, \<^verbatim>\<open>res.arrayBuffer()\<close>
  or \<^verbatim>\<open>res.json()\<close>, each of which can throw).
\<close>

record 'b http_response =
  ok :: bool
  status :: nat
  content :: "exn + 'b"

text \<open>
  What JSDOM and Readability give for a page: \<^verbatim>\<open>reader.parse()\<close> is
  \<^verbatim>\<open>null\<close> or an article whose \<^verbatim>\<open>textContent\<close> may be absent, and
  \<^verbatim>\<open>dom.window.document.body.textContent\<close>.
\<close>

datatype article = Article (textContent: "string option")

record dom =
  article :: "article option"
  body_textContent :: "string option"

text \<open>
  The collaborators and library functions that are not code of this repository are
  parameters of the model: each maps the arguments of the call to what the call
  returns, \<open>Inl\<close> when it throws.
  \<^item> \<open>fetch_link\<close>, \<open>fetch_voice\<close>: \<^verbatim>\<open>fetch\<close> of the submitted URL;
  \<^item> \<open>read_dom\<close>: \<^verbatim>\<open>new JSDOM(html, { url })\<close> and \<^verbatim>\<open>new Readability(...).parse()\<close>;
  \<^item> \<open>transcriptions_create\<close>: \<^verbatim>\<open>openai.audio.transcriptions.create\<close> on the downloaded bytes;
  \<^item> \<open>chat_completion\<close>: \<^verbatim>\<open>openai.chat.completions.create\<close> on the user prompt, giving
    \<^verbatim>\<open>completion.choices[0]?.message?.content\<close> (\<open>None\<close> when absent);
  \<^item> \<open>JSON_parse\<close>: \<^verbatim>\<open>JSON.parse\<close>, \<open>Inl\<close> for text that is not valid JSON;
  \<^item> \<open>images_generate\<close>: \<^verbatim>\<open>openai.images.generate\<close> on the prompt, giving
    \<^verbatim>\<open>res.data?.[0]?.b64_json\<close>;
  \<^item> \<open>oauth_token\<close>: the POST of the form parameters to the OAuth token endpoint;
  \<^item> \<open>blogger_insert\<close>: the POST to the Blogger endpoint, with the Authorization
    header, and the title and content of the JSON body.
\<close>

record world =
  fetch_link :: "jsval \<Rightarrow> exn + string http_response"
  read_dom :: "string \<Rightarrow> jsval \<Rightarrow> exn + dom"
  fetch_voice :: "jsval \<Rightarrow> exn + nat list http_response"
  transcriptions_create :: "nat list \<Rightarrow> exn + jsval"
  chat_completion :: "string \<Rightarrow> exn + string option"
  JSON_parse :: "string \<Rightarrow> exn + jsval"
  images_generate :: "string \<Rightarrow> exn + string option"
  oauth_token :: "(string \<times> string) list \<Rightarrow> exn + jsval http_response"
  blogger_insert :: "string \<Rightarrow> string \<Rightarrow> jsval \<Rightarrow> string \<Rightarrow> exn + jsval http_response"

section \<open>The pipeline steps of \<^verbatim>\<open>src/pages/api/process.ts\<close>\<close>

definition NL :: string where
  "NL = [CHR 0x0A]"

definition fetchTextFromLink :: "world \<Rightarrow> jsval \<Rightarrow> string io" where
  "fetchTextFromLink w url =
     bind (call (Fetch_link url) (fetch_link w url)) (\<lambda>res.
     if \<not> ok res then throw (Exn (''Falha ao buscar link: '' @ string_of_nat (status res)))
     else
     bind (lift (content res)) (\<lambda>html.
     bind (lift (read_dom w html url)) (\<lambda>d.
     (case (case article d of None \<Rightarrow> None | Some a \<Rightarrow> textContent a) of
        Some t \<Rightarrow>
          if t \<noteq> [] \<and> 0 < length (trim t) then ret (trim t)
          else ret (trim (case body_textContent d of None \<Rightarrow> [] | Some b \<Rightarrow> b))
      | None \<Rightarrow> ret (trim (case body_textContent d of None \<Rightarrow> [] | Some b \<Rightarrow> b))))))"

definition transcribeFromUrl :: "world \<Rightarrow> jsval \<Rightarrow> jsval io" where
  "transcribeFromUrl w voiceUrl =
     bind (call (Fetch_voice voiceUrl) (fetch_voice w voiceUrl)) (\<lambda>res.
     if \<not> ok res then throw (Exn (''Falha ao baixar ?udio: '' @ string_of_nat (status res)))
     else
     bind (lift (content res)) (\<lambda>buffer.
     bind (call (Transcription buffer) (transcriptions_create w buffer)) (\<lambda>transcription.
     lift (get_prop transcription ''text''))))"

definition prompt_head :: string where
  \<open>prompt_head =
     ''Voc? ? um redator financeiro em PT-BR. Receba o conte?do a seguir (pode ser transcri??o de voz, texto bruto ou not?cia) e produza:'' @ NL @
     ''- Um t?tulo curto e chamativo (<= 70 caracteres)'' @ NL @
     ''- Um resumo estruturado e objetivo, com subt?tulos quando fizer sentido'' @ NL @
     ''- Tom profissional, educativo, sem jarg?es excessivos'' @ NL @
     ''- Inclua 3 a 5 bullet points de insights pr?ticos'' @ NL @
     NL @
     ''Retorne APENAS um JSON com as chaves: title, html. N?o inclua c?digo, markdown ou explica??es.'' @ NL @
     NL @
     ''CONTE?DO:'' @ NL @
     ''"""'' @ NL\<close>

definition prompt_tail :: string where
  \<open>prompt_tail = NL @ ''"""''\<close>

text \<open>Line 70: the content of the completion, or \<^verbatim>\<open>'{}'\<close> when it is absent or empty.\<close>

definition content_of :: "string option \<Rightarrow> string" where
  "content_of c = (case c of None \<Rightarrow> ''{}'' | Some t \<Rightarrow> if t = [] then ''{}'' else t)"

definition summarizeFinancePortuguese :: "world \<Rightarrow> jsval \<Rightarrow> (jsval \<times> jsval) io" where
  "summarizeFinancePortuguese w input =
     bind (lift (to_string input)) (\<lambda>s.
     bind (call (Chat_completion (prompt_head @ s @ prompt_tail))
             (chat_completion w (prompt_head @ s @ prompt_tail))) (\<lambda>c.
     bind (lift (JSON_parse w (content_of c))) (\<lambda>parsed.
     bind (lift (get_prop parsed ''title'')) (\<lambda>title.
     bind (lift (get_prop parsed ''html'')) (\<lambda>summaryHtml.
     ret (title, summaryHtml))))))"

definition image_prompt :: "string \<Rightarrow> string" where
  "image_prompt p =
     ''Ilustra??o editorial minimalista e limpa sobre finan?as: '' @ p @
     ''. Estilo moderno, cores s?brias, sem texto.''"

definition generateImageBase64 :: "world \<Rightarrow> jsval \<Rightarrow> string io" where
  "generateImageBase64 w prompt =
     bind (lift (to_string prompt)) (\<lambda>p.
     bind (call (Image_generation (image_prompt p)) (images_generate w (image_prompt p))) (\<lambda>b64.
     (case b64 of
        None \<Rightarrow> throw (Exn ''Falha ao gerar imagem'')
      | Some b \<Rightarrow>
          if b = [] then throw (Exn ''Falha ao gerar imagem'')
          else ret (''data:image/png;base64,'' @ b))))"


text \<open>The form parameters of the token request (\<^verbatim>\<open>params\<close>, lines 95 to 99).\<close>

definition token_params :: "config \<Rightarrow> (string \<times> string) list" where
  "token_params cfg =
     [(''client_id'', env_str (GOOGLE_CLIENT_ID cfg)),
      (''client_secret'', env_str (GOOGLE_CLIENT_SECRET cfg)),
      (''refresh_token'', env_str (GOOGLE_REFRESH_TOKEN cfg)),
      (''grant_type'', ''refresh_token'')]"

definition ensureGoogleAccessToken :: "config \<Rightarrow> world \<Rightarrow> jsval io" where
  "ensureGoogleAccessToken cfg w =
     (if missing (GOOGLE_CLIENT_ID cfg) \<or> missing (GOOGLE_CLIENT_SECRET cfg)
         \<or> missing (GOOGLE_REFRESH_TOKEN cfg)
      then throw (Exn ''Vari?veis GOOGLE_CLIENT_ID/SECRET/REFRESH_TOKEN ausentes'')
      else
      bind (call (Token_exchange (token_params cfg)) (oauth_token w (token_params cfg))) (\<lambda>res.
      bind (lift (content res)) (\<lambda>json.
      if \<not> ok res then
        bind (lift (get_prop json ''error'')) (\<lambda>err.
        bind (lift (to_string (js_or err (JNum (string_of_nat (status res)))))) (\<lambda>s.
        throw (Exn (''OAuth error: '' @ s))))
      else lift (get_prop json ''access_token''))))"

definition blogger_endpoint :: "string \<Rightarrow> string" where
  "blogger_endpoint blogId =
     ''https://www.googleapis.com/blogger/v3/blogs/'' @ blogId @
     ''/posts/?isDraft=false&fetchImages=true&revert=false''"

text \<open>The result is the pair of \<^verbatim>\<open>url\<close> and \<^verbatim>\<open>id\<close>.\<close>

definition postToBlogger :: "config \<Rightarrow> world \<Rightarrow> jsval \<Rightarrow> string \<Rightarrow> (jsval \<times> jsval) io" where
  "postToBlogger cfg w title html =
     (if missing (BLOGGER_BLOG_ID cfg) then throw (Exn ''BLOGGER_BLOG_ID ausente'')
      else
      bind (ensureGoogleAccessToken cfg w) (\<lambda>accessToken.
      bind (lift (to_string accessToken)) (\<lambda>tok.
      bind (call (Blogger_insert (blogger_endpoint (env_str (BLOGGER_BLOG_ID cfg)))
                    (''Bearer '' @ tok) title html)
              (blogger_insert w (blogger_endpoint (env_str (BLOGGER_BLOG_ID cfg)))
                    (''Bearer '' @ tok) title html)) (\<lambda>res.
      bind (lift (content res)) (\<lambda>data.
      if \<not> ok res then
        bind (lift (to_string (js_or (get_opt (get_opt data ''error'') ''message'')
                                 (JNum (string_of_nat (status res)))))) (\<lambda>s.
        throw (Exn (''Blogger error: '' @ s)))
      else
        bind (lift (get_prop data ''url'')) (\<lambda>url.
        bind (lift (get_prop data ''id'')) (\<lambda>ident.
        ret (url, ident))))))))"

section \<open>The request handler\<close>

text \<open>The request: \<^verbatim>\<open>req.method\<close> (the field \<open>http_method\<close>) and
  \<^verbatim>\<open>req.body\<close>, undefined when the request has no body.\<close>

record request =
  http_method :: string
  body :: jsval

record api_response =
  res_status :: nat
  res_headers :: "(string \<times> string list) list"
  res_body :: jsval

text \<open>
  \<^verbatim>\<open>JSON.stringify\<close> of an object literal, as the receiver parses it back:
  a property whose value is \<^verbatim>\<open>undefined\<close> is left out.
\<close>

definition stringify_object :: "(string \<times> jsval) list \<Rightarrow> jsval" where
  "stringify_object kvs = JObj (filter (\<lambda>kv. snd kv \<noteq> JUndefined) kvs)"

text \<open>\<^verbatim>\<open>res.status(c).json(obj)\<close>, with the headers set before it.\<close>

definition res_json :: "nat \<Rightarrow> (string \<times> string list) list \<Rightarrow> (string \<times> jsval) list \<Rightarrow> api_response" where
  "res_json c hs kvs = \<lparr>res_status = c, res_headers = hs, res_body = stringify_object kvs\<rparr>"

text \<open>
  Lines 146 to 156 of the handler: the source text of the request, or the 400 reply
  the handler returns at once.
\<close>

definition acquire :: "world \<Rightarrow> jsval \<Rightarrow> jsval \<Rightarrow> (api_response + jsval) io" where
  "acquire w b ty =
     (if ty = JStr ''text'' then
        bind (lift (get_prop b ''text'')) (\<lambda>t.
        if \<not> truthy t then ret (Inl (res_json 400 [] [(''error'', JStr ''Texto ausente'')]))
        else ret (Inr t))
      else if ty = JStr ''link'' then
        bind (lift (get_prop b ''link'')) (\<lambda>l.
        if \<not> truthy l then ret (Inl (res_json 400 [] [(''error'', JStr ''Link ausente'')]))
        else bind (fetchTextFromLink w l) (\<lambda>s. ret (Inr (JStr s))))
      else if ty = JStr ''voice'' then
        bind (lift (get_prop b ''voiceUrl'')) (\<lambda>v.
        if \<not> truthy v then ret (Inl (res_json 400 [] [(''error'', JStr ''voiceUrl ausente'')]))
        else bind (transcribeFromUrl w v) (\<lambda>s. ret (Inr s)))
      else ret (Inr (JStr [])))"

definition html_template :: "string \<Rightarrow> string \<Rightarrow> string \<Rightarrow> string" where
  \<open>html_template imageDataUrl title summaryHtml =
     NL @ ''      <div style="text-align:center;margin:0 0 16px 0">'' @ NL @
     ''        <img src="'' @ imageDataUrl @ ''" alt="'' @ title @
     ''" style="max-width:100%;height:auto" />'' @ NL @
     ''      </div>'' @ NL @
     ''      '' @ summaryHtml @ NL @
     ''    ''\<close>

text \<open>
  Lines 158 to 166: the summary, the image and the page. The result is the title, the
  page (\<^verbatim>\<open>html\<close>) and \<^verbatim>\<open>imageDataUrl\<close>.
\<close>

definition compose :: "world \<Rightarrow> jsval \<Rightarrow> (jsval \<times> string \<times> string) io" where
  "compose w sourceText =
     bind (summarizeFinancePortuguese w sourceText) (\<lambda>summary.
     bind (generateImageBase64 w (fst summary)) (\<lambda>imageDataUrl.
     bind (lift (to_string (fst summary))) (\<lambda>title_text.
     bind (lift (to_string (snd summary))) (\<lambda>summary_text.
     ret (fst summary, html_template imageDataUrl title_text summary_text, imageDataUrl)))))"

text \<open>Lines 168 to 172: \<^verbatim>\<open>bloggerPostUrl\<close>, undefined unless the post was made.\<close>

definition publish :: "config \<Rightarrow> world \<Rightarrow> jsval \<Rightarrow> jsval \<Rightarrow> string \<Rightarrow> jsval io" where
  "publish cfg w b title html =
     bind (lift (get_prop b ''postToBlogger'')) (\<lambda>flag.
     if truthy flag
     then bind (postToBlogger cfg w title html) (\<lambda>post. ret (fst post))
     else ret JUndefined)"

text \<open>Lines 158 to 174.\<close>

definition produce :: "config \<Rightarrow> world \<Rightarrow> jsval \<Rightarrow> jsval \<Rightarrow> api_response io" where
  "produce cfg w b sourceText =
     bind (compose w sourceText) (\<lambda>made.
     bind (publish cfg w b (fst made) (fst (snd made))) (\<lambda>bloggerPostUrl.
     ret (res_json 200 []
            [(''title'', fst made),
             (''html'', JStr (fst (snd made))),
             (''imageDataUrl'', JStr (snd (snd made))),
             (''bloggerPostUrl'', bloggerPostUrl)])))"

text \<open>The body of the \<^verbatim>\<open>try\<close> block.\<close>

definition try_block :: "config \<Rightarrow> world \<Rightarrow> jsval \<Rightarrow> api_response io" where
  "try_block cfg w b =
     (if \<not> truthy b then ret (res_json 400 [] [(''error'', JStr ''Par?metros inv?lidos'')])
      else
      bind (lift (get_prop b ''type'')) (\<lambda>ty.
      if \<not> truthy ty then ret (res_json 400 [] [(''error'', JStr ''Par?metros inv?lidos'')])
      else
      bind (acquire w b ty) (\<lambda>src.
      (case src of
         Inl reply \<Rightarrow> ret reply
       | Inr sourceText \<Rightarrow> produce cfg w b sourceText))))"

text \<open>The handler gives the reply and the trace of the calls it made.\<close>

definition handler :: "config \<Rightarrow> world \<Rightarrow> request \<Rightarrow> api_response \<times> event list" where
  "handler cfg w req =
     (if http_method req \<noteq> ''POST''
      then (res_json 405 [(''Allow'', [''POST''])] [(''error'', JStr ''Method not allowed'')], [])
      else
      (case try_block cfg w (body req) of
         (t, Inr reply) \<Rightarrow> (reply, t)
       | (t, Inl err) \<Rightarrow>
           (res_json 500 []
              [(''error'', JStr (if message err = [] then ''Erro interno'' else message err))],
            t @ [Console_error err])))"


section \<open>The form of \<^verbatim>\<open>src/pages/index.tsx\<close>\<close>

datatype input_type = Text | Voice | Link

definition type_name :: "input_type \<Rightarrow> string" where
  "type_name t = (case t of Text \<Rightarrow> ''text'' | Voice \<Rightarrow> ''voice'' | Link \<Rightarrow> ''link'')"

text \<open>The state of the component (\<^verbatim>\<open>useState\<close>); \<open>None\<close> is \<^verbatim>\<open>null\<close>,
  and \<open>text_value\<close> is the state variable \<^verbatim>\<open>text\<close>.\<close>

record ui_state =
  inputType :: input_type
  text_value :: string
  voiceUrl :: string
  link :: string
  posting :: bool
  result :: "jsval option"
  error :: "jsval option"

text \<open>The arguments of the \<^verbatim>\<open>fetch\<close> call; the body is the JSON sent.\<close>

record fetch_call =
  fetch_url :: string
  fetch_method :: string
  fetch_headers :: "(string \<times> string) list"
  fetch_body :: jsval

text \<open>Lines 18 to 28: the request that \<^verbatim>\<open>handleSubmit\<close> sends.\<close>

definition submission :: "ui_state \<Rightarrow> fetch_call" where
  "submission st =
     \<lparr>fetch_url = ''/api/process'',
      fetch_method = ''POST'',
      fetch_headers = [(''Content-Type'', ''application/json'')],
      fetch_body = stringify_object
        [(''type'', JStr (type_name (inputType st))),
         (''text'', if inputType st = Text then JStr (text_value st) else JUndefined),
         (''voiceUrl'', if inputType st = Voice then JStr (voiceUrl st) else JUndefined),
         (''link'', if inputType st = Link then JStr (link st) else JUndefined),
         (''postToBlogger'', JBool True)]\<rparr>"

text \<open>
  \<^verbatim>\<open>handleSubmit\<close>: the request sent and the state once the promise settles.
  \<open>net\<close> is the network: what \<^verbatim>\<open>fetch\<close> resolves to, with \<^verbatim>\<open>res.json()\<close>
  as its content. When \<^verbatim>\<open>fetch\<close> or the \<^verbatim>\<open>res.json()\<close> of an ok reply
  throws, the promise rejects and the state stays as the three setters at the top left
  it. On a reply that is not ok, \<^verbatim>\<open>setPosting(false)\<close> runs (line 32) before
  \<^verbatim>\<open>body.error\<close> is read (line 33), so the flag is cleared even when that read
  throws.
\<close>

definition handleSubmit ::
  "ui_state \<Rightarrow> (fetch_call \<Rightarrow> exn + jsval http_response) \<Rightarrow> fetch_call \<times> ui_state" where
  "handleSubmit st net =
     (submission st,
      (case net (submission st) of
         Inl e \<Rightarrow> st\<lparr>posting := True, error := None, result := None\<rparr>
       | Inr res \<Rightarrow>
           if \<not> ok res then
             (case get_prop (case content res of Inl e \<Rightarrow> JObj [] | Inr j \<Rightarrow> j) ''error'' of
                Inl e \<Rightarrow> st\<lparr>posting := False, error := None, result := None\<rparr>
              | Inr msg \<Rightarrow>
                  st\<lparr>posting := False,
                     error := Some (js_or msg (JStr ''Erro ao processar.'')),
                     result := None\<rparr>)
           else
             (case content res of
                Inl e \<Rightarrow> st\<lparr>posting := True, error := None, result := None\<rparr>
              | Inr data \<Rightarrow> st\<lparr>posting := False, error := None, result := Some data\<rparr>)))"

text \<open>The request as the endpoint receives it.\<close>

definition received :: "fetch_call \<Rightarrow> request" where
  "received c = \<lparr>http_method = fetch_method c, body = fetch_body c\<rparr>"


section \<open>An example environment\<close>

text \<open>
  A configuration with every variable set, and collaborators that all succeed. The
  parser of the example agrees with \<^verbatim>\<open>JSON.parse\<close> on the three texts the
  examples give it: an object with both keys, the empty object, and a text that is
  not JSON.
\<close>

definition demo_config :: config where
  "demo_config =
     \<lparr>GOOGLE_CLIENT_ID = Some ''client'', GOOGLE_CLIENT_SECRET = Some ''secret'',
      GOOGLE_REFRESH_TOKEN = Some ''refresh'', BLOGGER_BLOG_ID = Some ''42''\<rparr>"

definition demo_completion :: string where
  \<open>demo_completion = ''{"title":"Selic","html":"<p>Juros</p>"}''\<close>

definition demo_parse :: "string \<Rightarrow> exn + jsval" where
  "demo_parse s =
     (if s = demo_completion
      then Inr (JObj [(''title'', JStr ''Selic''), (''html'', JStr ''<p>Juros</p>'')])
      else if s = ''{}'' then Inr (JObj [])
      else Inl (Exn ''Unexpected token o in JSON at position 0''))"

definition demo_world :: world where
  "demo_world =
     \<lparr>fetch_link = (\<lambda>u. Inr \<lparr>ok = True, status = 200, content = Inr ''<html></html>''\<rparr>),
      read_dom = (\<lambda>h u. Inr \<lparr>article = Some (Article (Some '' Juros sobem '')),
                              body_textContent = Some '' Menu Juros sobem Contato ''\<rparr>),
      fetch_voice = (\<lambda>u. Inr \<lparr>ok = True, status = 200, content = Inr [82, 73, 70, 70]\<rparr>),
      transcriptions_create = (\<lambda>b. Inr (JObj [(''text'', JStr ''juros sobem'')])),
      chat_completion = (\<lambda>p. Inr (Some demo_completion)),
      JSON_parse = demo_parse,
      images_generate = (\<lambda>p. Inr (Some ''iVBORw0KGgo='')),
      oauth_token = (\<lambda>ps. Inr \<lparr>ok = True, status = 200,
                                 content = Inr (JObj [(''access_token'', JStr ''ya29'')])\<rparr>),
      blogger_insert = (\<lambda>e a t h. Inr \<lparr>ok = True, status = 200,
                                 content = Inr (JObj [(''url'', JStr ''https://blog.example/1''),
                                                      (''id'', JStr ''1'')])\<rparr>)\<rparr>"

text \<open>A POST of raw text, with and without publication.\<close>

definition text_request :: "bool \<Rightarrow> request" where
  "text_request publish_it =
     \<lparr>http_method = ''POST'',
      body = JObj [(''type'', JStr ''text''), (''text'', JStr ''Selic sobe''),
                   (''postToBlogger'', JBool publish_it)]\<rparr>"

text \<open>The same collaborators with a chat completion that is the empty JSON object,
  and with one that is not JSON.\<close>

definition world_no_keys :: world where
  "world_no_keys = demo_world\<lparr>chat_completion := (\<lambda>p. Inr (Some ''{}''))\<rparr>"

definition world_bad_json :: world where
  "world_bad_json = demo_world\<lparr>chat_completion := (\<lambda>p. Inr (Some ''oops''))\<rparr>"

text \<open>
  The same collaborators with a chat completion whose content is empty, and with one
  whose title is an object with an own \<^verbatim>\<open>toString\<close> property (the parser of
  that example knows this text too).
\<close>

definition world_empty_content :: world where
  "world_empty_content = demo_world\<lparr>chat_completion := (\<lambda>p. Inr (Some []))\<rparr>"

definition bad_title_completion :: string where
  \<open>bad_title_completion = ''{"title":{"toString":1}}''\<close>

definition world_bad_title :: world where
  "world_bad_title =
     demo_world\<lparr>chat_completion := (\<lambda>p. Inr (Some bad_title_completion)),
                JSON_parse := (\<lambda>s. if s = bad_title_completion
                                   then Inr (JObj [(''title'', JObj [(''toString'', JNum ''1'')])])
                                   else demo_parse s)\<rparr>"

text \<open>The same page, whose extracted article is white space only.\<close>

definition world_blank_article :: world where
  "world_blank_article =
     demo_world\<lparr>read_dom := (\<lambda>h u. Inr \<lparr>article = Some (Article (Some [CHR 0x20, CHR 0x0A])),
                                          body_textContent = Some '' Menu Juros sobem Contato ''\<rparr>)\<rparr>"

text \<open>The configuration without the blog identifier, and without the refresh token.\<close>

definition config_no_blog :: config where
  "config_no_blog = demo_config\<lparr>BLOGGER_BLOG_ID := None\<rparr>"

definition config_no_refresh :: config where
  "config_no_refresh = demo_config\<lparr>GOOGLE_REFRESH_TOKEN := None\<rparr>"

text \<open>A POST whose type is none of the three variants.\<close>

definition video_request :: request where
  "video_request = \<lparr>http_method = ''POST'', body = JObj [(''type'', JStr ''video'')]\<rparr>"

text \<open>A POST of a link, and collaborators whose fetch of the link answers 404.\<close>

definition link_request :: request where
  "link_request =
     \<lparr>http_method = ''POST'',
      body = JObj [(''type'', JStr ''link''), (''link'', JStr ''https://x.example/a'')]\<rparr>"

definition world_link_404 :: world where
  "world_link_404 =
     demo_world\<lparr>fetch_link := (\<lambda>u. Inr \<lparr>ok = False, status = 404, content = Inr []\<rparr>)\<rparr>"

section \<open>Notions the properties are stated with\<close>

text \<open>The step of the pipeline that an event belongs to.\<close>

datatype step = Normalize | Summarize | Illustrate | Token_step | Post_step | Log_step

fun step_of :: "event \<Rightarrow> step" where
  "step_of (Fetch_link u) = Normalize"
| "step_of (Fetch_voice u) = Normalize"
| "step_of (Transcription b) = Normalize"
| "step_of (Chat_completion p) = Summarize"
| "step_of (Image_generation p) = Illustrate"
| "step_of (Token_exchange ps) = Token_step"
| "step_of (Blogger_insert e a t h) = Post_step"
| "step_of (Console_error e) = Log_step"

text \<open>
  The order of the steps, and a trace whose events follow it: normalization, then
  summarization, illustration, token exchange, post creation, and the log of the error.
\<close>

fun step_rank :: "step \<Rightarrow> nat" where
  "step_rank Normalize = 0"
| "step_rank Summarize = 1"
| "step_rank Illustrate = 2"
| "step_rank Token_step = 3"
| "step_rank Post_step = 4"
| "step_rank Log_step = 5"

definition in_order :: "event list \<Rightarrow> bool" where
  "in_order t = sorted (map (\<lambda>e. step_rank (step_of e)) t)"

text \<open>One of the three OAuth credentials is not configured.\<close>

definition credentials_missing :: "config \<Rightarrow> bool" where
  "credentials_missing cfg \<longleftrightarrow>
     missing (GOOGLE_CLIENT_ID cfg) \<or> missing (GOOGLE_CLIENT_SECRET cfg)
     \<or> missing (GOOGLE_REFRESH_TOKEN cfg)"

text \<open>The keys of a JSON object (none for any other value).\<close>

fun keys_of :: "jsval \<Rightarrow> string list" where
  "keys_of (JObj kvs) = map fst kvs"
| "keys_of v = []"

text \<open>The message of the reply to a thrown value (line 177).\<close>

definition error_reply :: "exn \<Rightarrow> api_response" where
  "error_reply err =
     \<lparr>res_status = 500, res_headers = [],
      res_body = JObj [(''error'', JStr (if message err = [] then ''Erro interno'' else message err))]\<rparr>"

text \<open>
  For the link variant: what the readability extraction yielded (nothing when there
  is no article or no text), the text of the page body, and a text that is empty or
  made of white space only.
\<close>

definition extracted_text :: "dom \<Rightarrow> string" where
  "extracted_text d =
     (case article d of None \<Rightarrow> [] | Some a \<Rightarrow> (case textContent a of None \<Rightarrow> [] | Some t \<Rightarrow> t))"

definition page_text :: "dom \<Rightarrow> string" where
  "page_text d = (case body_textContent d of None \<Rightarrow> [] | Some b \<Rightarrow> b)"

definition whitespace_only :: "string \<Rightarrow> bool" where
  "whitespace_only s = list_all is_ws s"

text \<open>For the form: the payload key of a variant and the payload the state holds for it.\<close>

definition payload_key :: "input_type \<Rightarrow> string" where
  "payload_key t = (case t of Text \<Rightarrow> ''text'' | Voice \<Rightarrow> ''voiceUrl'' | Link \<Rightarrow> ''link'')"

definition payload :: "ui_state \<Rightarrow> string" where
  "payload st =
     (case inputType st of Text \<Rightarrow> text_value st | Voice \<Rightarrow> voiceUrl st | Link \<Rightarrow> link st)"

section \<open>Laws of the trace-and-exception computations\<close>

lemma bind_ret: "bind (ret x) f = f x"
  by (cases "f x") (simp add: bind_def ret_def)

lemma bind_throw: "bind (throw e) f = throw e"
  by (simp add: bind_def throw_def)

lemma bind_lift_Inr: "bind (lift (Inr x)) f = f x"
  by (cases "f x") (simp add: bind_def lift_def)

lemma bind_lift_Inl: "bind (lift (Inl e)) f = throw e"
  by (simp add: bind_def lift_def throw_def)

lemma bind_call_Inl: "bind (call ev (Inl e)) f = ([ev], Inl e)"
  by (simp add: bind_def call_def)

lemma bind_call_Inr: "bind (call ev (Inr x)) f = (ev # fst (f x), snd (f x))"
  by (cases "f x") (simp add: bind_def call_def)

lemma fst_bind:
  "fst (bind m f) = fst m @ (case snd m of Inl e \<Rightarrow> [] | Inr x \<Rightarrow> fst (f x))"
  by (cases m) (auto simp: bind_def split: sum.splits prod.splits)

lemma snd_bind:
  "snd (bind m f) = (case snd m of Inl e \<Rightarrow> Inl e | Inr x \<Rightarrow> snd (f x))"
  by (cases m) (auto simp: bind_def split: sum.splits prod.splits)

lemmas io_simps =
  bind_ret bind_throw bind_lift_Inr bind_lift_Inl bind_call_Inl bind_call_Inr

lemma fst_ret: "fst (ret x) = []" and snd_ret: "snd (ret x) = Inr x"
  and fst_throw: "fst (throw e) = []" and snd_throw: "snd (throw e) = Inl e"
  and fst_lift: "fst (lift r) = []" and snd_lift: "snd (lift r) = r"
  and fst_call: "fst (call ev r) = [ev]" and snd_call: "snd (call ev r) = r"
  by (simp_all add: ret_def throw_def lift_def call_def)

lemmas proj_simps =
  fst_bind snd_bind fst_ret snd_ret fst_throw snd_throw fst_lift snd_lift fst_call snd_call

section \<open>The calls of each step\<close>

lemma summarize_trace:
  "fst (summarizeFinancePortuguese w input) =
     (case to_string input of Inl e \<Rightarrow> []
      | Inr s \<Rightarrow> [Chat_completion (prompt_head @ s @ prompt_tail)])"
  by (simp add: summarizeFinancePortuguese_def proj_simps split: sum.splits)

lemma generate_trace:
  "fst (generateImageBase64 w t) =
     (case to_string t of Inl e \<Rightarrow> [] | Inr p \<Rightarrow> [Image_generation (image_prompt p)])"
  by (simp add: generateImageBase64_def proj_simps split: sum.splits option.splits)

lemma fetchTextFromLink_trace: "fst (fetchTextFromLink w u) = [Fetch_link u]"
  by (simp add: fetchTextFromLink_def proj_simps split: sum.splits option.splits)

lemma transcribeFromUrl_steps:
  "e \<in> set (fst (transcribeFromUrl w u)) \<Longrightarrow> step_of e = Normalize"
  by (auto simp: transcribeFromUrl_def proj_simps split: sum.splits if_splits)

lemma acquire_steps: "e \<in> set (fst (acquire w b ty)) \<Longrightarrow> step_of e = Normalize"
  by (auto simp: acquire_def proj_simps fetchTextFromLink_trace
        split: sum.splits if_splits dest: transcribeFromUrl_steps)

lemma compose_trace:
  "fst (compose w src) =
     fst (summarizeFinancePortuguese w src) @
     (case snd (summarizeFinancePortuguese w src) of Inl e \<Rightarrow> []
      | Inr summary \<Rightarrow> fst (generateImageBase64 w (fst summary)))"
  by (simp add: compose_def proj_simps split: sum.splits)

lemma compose_steps:
  "e \<in> set (fst (compose w src)) \<Longrightarrow> step_of e = Summarize \<or> step_of e = Illustrate"
  by (auto simp: compose_trace summarize_trace generate_trace split: sum.splits)

lemma ensure_missing:
  "credentials_missing cfg \<Longrightarrow>
   ensureGoogleAccessToken cfg w =
     throw (Exn ''Vari?veis GOOGLE_CLIENT_ID/SECRET/REFRESH_TOKEN ausentes'')"
  by (auto simp: ensureGoogleAccessToken_def credentials_missing_def)

lemma ensure_trace:
  "fst (ensureGoogleAccessToken cfg w) =
     (if credentials_missing cfg then [] else [Token_exchange (token_params cfg)])"
  by (simp add: ensureGoogleAccessToken_def credentials_missing_def proj_simps
        split: sum.splits)

lemma postToBlogger_no_blog:
  "missing (BLOGGER_BLOG_ID cfg) \<Longrightarrow>
   postToBlogger cfg w title html = throw (Exn ''BLOGGER_BLOG_ID ausente'')"
  by (simp add: postToBlogger_def)

lemma postToBlogger_no_credentials:
  "\<not> missing (BLOGGER_BLOG_ID cfg) \<Longrightarrow> credentials_missing cfg \<Longrightarrow>
   postToBlogger cfg w title html =
     throw (Exn ''Vari?veis GOOGLE_CLIENT_ID/SECRET/REFRESH_TOKEN ausentes'')"
  by (simp add: postToBlogger_def ensure_missing io_simps)

lemma postToBlogger_trace:
  "fst (postToBlogger cfg w title html) = [] \<or>
   fst (postToBlogger cfg w title html) = [Token_exchange (token_params cfg)] \<or>
   (\<exists>tok. fst (postToBlogger cfg w title html) =
      [Token_exchange (token_params cfg),
       Blogger_insert (blogger_endpoint (env_str (BLOGGER_BLOG_ID cfg))) (''Bearer '' @ tok)
         title html])"
proof (cases "missing (BLOGGER_BLOG_ID cfg) \<or> credentials_missing cfg")
  case True
  have "fst (postToBlogger cfg w title html) = []"
  proof (cases "missing (BLOGGER_BLOG_ID cfg)")
    case True
    then show ?thesis by (simp add: postToBlogger_no_blog fst_throw)
  next
    case False
    with \<open>missing (BLOGGER_BLOG_ID cfg) \<or> credentials_missing cfg\<close> show ?thesis
      by (simp add: postToBlogger_no_credentials fst_throw)
  qed
  then show ?thesis by simp
next
  case False
  then show ?thesis
    by (simp add: postToBlogger_def proj_simps ensure_trace split: sum.splits)
qed

section \<open>Method and validation\<close>

text \<open>
  C9. A request whose method is not POST is answered with status 405, the header
  Allow set to POST and an error body, and the handler makes no call at all: the
  trace is empty.
\<close>

theorem non_post_is_405:
  "http_method req \<noteq> ''POST'' \<Longrightarrow>
     res_status (fst (handler cfg w req)) = 405 \<and>
     res_headers (fst (handler cfg w req)) = [(''Allow'', [''POST''])] \<and>
     res_body (fst (handler cfg w req)) = JObj [(''error'', JStr ''Method not allowed'')] \<and>
     snd (handler cfg w req) = []"
  by (simp add: handler_def res_json_def stringify_object_def)

theorem non_post_is_405_witness:
  "res_status (fst (handler demo_config demo_world ((text_request True)\<lparr>http_method := ''GET''\<rparr>))) = 405 \<and>
   res_headers (fst (handler demo_config demo_world ((text_request True)\<lparr>http_method := ''GET''\<rparr>)))
     = [(''Allow'', [''POST''])] \<and>
   res_body (fst (handler demo_config demo_world ((text_request True)\<lparr>http_method := ''GET''\<rparr>)))
     = JObj [(''error'', JStr ''Method not allowed'')] \<and>
   snd (handler demo_config demo_world ((text_request True)\<lparr>http_method := ''GET''\<rparr>)) = []"
  by (rule non_post_is_405) (simp add: text_request_def)

lemma try_block_obj:
  "map_of kvs ''type'' = Some ty \<Longrightarrow> truthy ty \<Longrightarrow>
   try_block cfg w (JObj kvs) =
     bind (acquire w (JObj kvs) ty) (\<lambda>src.
       case src of Inl reply \<Rightarrow> ret reply
       | Inr sourceText \<Rightarrow> produce cfg w (JObj kvs) sourceText)"
  by (simp add: try_block_def io_simps)

lemma acquire_text_missing:
  "\<not> truthy (get_opt (JObj kvs) ''text'') \<Longrightarrow>
   acquire w (JObj kvs) (JStr ''text'') =
     ret (Inl (res_json 400 [] [(''error'', JStr ''Texto ausente'')]))"
  by (simp add: acquire_def io_simps)

lemma acquire_link_missing:
  "\<not> truthy (get_opt (JObj kvs) ''link'') \<Longrightarrow>
   acquire w (JObj kvs) (JStr ''link'') =
     ret (Inl (res_json 400 [] [(''error'', JStr ''Link ausente'')]))"
  by (simp add: acquire_def io_simps)

lemma acquire_voice_missing:
  "\<not> truthy (get_opt (JObj kvs) ''voiceUrl'') \<Longrightarrow>
   acquire w (JObj kvs) (JStr ''voice'') =
     ret (Inl (res_json 400 [] [(''error'', JStr ''voiceUrl ausente'')]))"
  by (simp add: acquire_def io_simps)

text \<open>
  C5. A POST whose body names a variant (text, link or voice) and whose payload field
  for that variant (text, link or voiceUrl) is absent, or present with a falsy value
  such as the empty string, is answered with status 400 and the validation message of
  that variant, and no pipeline step runs: the trace is empty.
\<close>

theorem missing_payload_is_400:
  assumes "http_method req = ''POST''" and "body req = JObj kvs"
    and "map_of kvs ''type'' = Some (JStr ty)"
    and "(ty, field, msg) \<in> {(''text'', ''text'', ''Texto ausente''),
                              (''link'', ''link'', ''Link ausente''),
                              (''voice'', ''voiceUrl'', ''voiceUrl ausente'')}"
    and "\<not> truthy (get_opt (JObj kvs) field)"
  shows "handler cfg w req =
           (\<lparr>res_status = 400, res_headers = [], res_body = JObj [(''error'', JStr msg)]\<rparr>, [])"
proof -
  have ty: "truthy (JStr ty)" using assms(4) by auto
  have "acquire w (JObj kvs) (JStr ty) = ret (Inl (res_json 400 [] [(''error'', JStr msg)]))"
    using assms(4,5) acquire_text_missing acquire_link_missing acquire_voice_missing by blast
  then have "try_block cfg w (JObj kvs) = ret (res_json 400 [] [(''error'', JStr msg)])"
    by (simp add: try_block_obj [OF assms(3) ty] io_simps)
  then show ?thesis
    using assms(1,2) by (simp add: handler_def ret_def res_json_def stringify_object_def)
qed

theorem missing_payload_is_400_witness:
  "handler demo_config demo_world
     \<lparr>http_method = ''POST'', body = JObj [(''type'', JStr ''link''), (''postToBlogger'', JBool True)]\<rparr>
   = (\<lparr>res_status = 400, res_headers = [], res_body = JObj [(''error'', JStr ''Link ausente'')]\<rparr>, [])"
  by (rule missing_payload_is_400
        [where ty = "''link''" and field = "''link''"
           and kvs = "[(''type'', JStr ''link''), (''postToBlogger'', JBool True)]"])
     simp_all


section \<open>The link variant\<close>

lemma trim_empty_iff: "trim s = [] \<longleftrightarrow> list_all is_ws s"
proof -
  have "dropWhile is_ws (rev (dropWhile is_ws s)) = [] \<longleftrightarrow> dropWhile is_ws s = []"
  proof
    assume a: "dropWhile is_ws (rev (dropWhile is_ws s)) = []"
    show "dropWhile is_ws s = []"
    proof (rule ccontr)
      assume n: "dropWhile is_ws s \<noteq> []"
      then have "\<not> is_ws (hd (dropWhile is_ws s))" by (rule hd_dropWhile)
      moreover have "hd (dropWhile is_ws s) \<in> set (rev (dropWhile is_ws s))" using n by simp
      ultimately show False using a by (auto simp: dropWhile_eq_Nil_conv)
    qed
  next
    assume "dropWhile is_ws s = []"
    then show "dropWhile is_ws (rev (dropWhile is_ws s)) = []"
      by (simp del: dropWhile_eq_Nil_conv)
  qed
  then show ?thesis
    by (simp add: trim_def dropWhile_eq_Nil_conv list_all_iff)
qed

lemma trim_Nil: "trim [] = []"
  by (simp add: trim_def)

text \<open>
  C6. For the link variant, when the fetch succeeds and the page is read: if the
  readability extraction yields no text, the empty text or white space only, the
  result is the text of the page body, trimmed; otherwise it is the extracted text,
  trimmed. The only call made is the fetch of the link.
\<close>

theorem link_text_extracted_or_body:
  assumes "fetch_link w url = Inr res" and "ok res" and "content res = Inr html"
    and "read_dom w html url = Inr d"
  shows "fetchTextFromLink w url =
           ([Fetch_link url],
            Inr (if whitespace_only (extracted_text d) then trim (page_text d)
                 else trim (extracted_text d)))"
  using assms
  by (auto simp: fetchTextFromLink_def io_simps ret_def whitespace_only_def extracted_text_def
        page_text_def trim_empty_iff [symmetric] trim_Nil split: option.splits)

theorem link_text_extracted_or_body_witness:
  "fetchTextFromLink demo_world (JStr ''https://x.example/a'') =
     ([Fetch_link (JStr ''https://x.example/a'')], Inr ''Juros sobem'') \<and>
   fetchTextFromLink world_blank_article (JStr ''https://x.example/a'') =
     ([Fetch_link (JStr ''https://x.example/a'')], Inr ''Menu Juros sobem Contato'')"
proof -
  have a: "fetch_link demo_world (JStr ''https://x.example/a'')
             = Inr \<lparr>ok = True, status = 200, content = Inr ''<html></html>''\<rparr>"
    by (simp add: demo_world_def)
  have b: "read_dom demo_world ''<html></html>'' (JStr ''https://x.example/a'')
             = Inr \<lparr>article = Some (Article (Some '' Juros sobem '')),
                    body_textContent = Some '' Menu Juros sobem Contato ''\<rparr>"
    by (simp add: demo_world_def)
  have c: "fetch_link world_blank_article (JStr ''https://x.example/a'')
             = Inr \<lparr>ok = True, status = 200, content = Inr ''<html></html>''\<rparr>"
    by (simp add: demo_world_def world_blank_article_def)
  have d: "read_dom world_blank_article ''<html></html>'' (JStr ''https://x.example/a'')
             = Inr \<lparr>article = Some (Article (Some [CHR 0x20, CHR 0x0A])),
                    body_textContent = Some '' Menu Juros sobem Contato ''\<rparr>"
    by (simp add: demo_world_def world_blank_article_def)
  show ?thesis
    using link_text_extracted_or_body [OF a _ _ b] link_text_extracted_or_body [OF c _ _ d]
    by (simp add: whitespace_only_def extracted_text_def page_text_def is_ws_def trim_def)
qed

section \<open>The form\<close>

text \<open>
  C10. Whatever the state of the form and whatever the network answers, the request
  that handleSubmit sends is a POST to /api/process whose JSON body holds the selected
  variant as type, the payload field of that variant only (text, voiceUrl or link,
  with the value the state holds for it), and postToBlogger set to true.
\<close>

theorem submit_always_publishes:
  "fst (handleSubmit st net) =
     \<lparr>fetch_url = ''/api/process'', fetch_method = ''POST'',
      fetch_headers = [(''Content-Type'', ''application/json'')],
      fetch_body = JObj [(''type'', JStr (type_name (inputType st))),
                         (payload_key (inputType st), JStr (payload st)),
                         (''postToBlogger'', JBool True)]\<rparr> \<and>
   http_method (received (fst (handleSubmit st net))) = ''POST'' \<and>
   get_opt (body (received (fst (handleSubmit st net)))) ''postToBlogger'' = JBool True"
  by (cases "inputType st")
     (simp_all add: handleSubmit_def submission_def stringify_object_def payload_key_def
        payload_def received_def)

section \<open>The handler, step by step\<close>

lemma get_prop_truthy: "truthy b \<Longrightarrow> get_prop b k = Inr (get_opt b k)"
  by (cases b) simp_all

lemma try_block_unfold:
  "try_block cfg w b =
     (if truthy b \<and> truthy (get_opt b ''type'')
      then bind (acquire w b (get_opt b ''type'')) (\<lambda>src.
             case src of Inl reply \<Rightarrow> ret reply | Inr sourceText \<Rightarrow> produce cfg w b sourceText)
      else ret (res_json 400 [] [(''error'', JStr ''Par?metros inv?lidos'')]))"
  by (simp add: try_block_def get_prop_truthy io_simps)

lemma handler_post:
  "http_method req = ''POST'' \<Longrightarrow>
   handler cfg w req =
     (case snd (try_block cfg w (body req)) of
        Inr reply \<Rightarrow> (reply, fst (try_block cfg w (body req)))
      | Inl err \<Rightarrow> (error_reply err, fst (try_block cfg w (body req)) @ [Console_error err]))"
  by (cases "try_block cfg w (body req)")
     (simp add: handler_def error_reply_def res_json_def stringify_object_def split: sum.splits)

lemma publish_unfold:
  "truthy b \<Longrightarrow>
   publish cfg w b title html =
     (if truthy (get_opt b ''postToBlogger'')
      then bind (postToBlogger cfg w title html) (\<lambda>post. ret (fst post))
      else ret JUndefined)"
  by (simp add: publish_def get_prop_truthy io_simps)

lemma produce_trace:
  "fst (produce cfg w b src) =
     fst (compose w src) @
     (case snd (compose w src) of Inl e \<Rightarrow> []
      | Inr made \<Rightarrow> fst (publish cfg w b (fst made) (fst (snd made))))"
  by (simp add: produce_def proj_simps split: sum.splits)

lemma produce_result:
  "snd (produce cfg w b src) =
     (case snd (compose w src) of Inl e \<Rightarrow> Inl e
      | Inr made \<Rightarrow>
          (case snd (publish cfg w b (fst made) (fst (snd made))) of Inl e \<Rightarrow> Inl e
           | Inr url \<Rightarrow>
               Inr (res_json 200 []
                      [(''title'', fst made), (''html'', JStr (fst (snd made))),
                       (''imageDataUrl'', JStr (snd (snd made))), (''bloggerPostUrl'', url)])))"
  by (simp add: produce_def proj_simps split: sum.splits)

lemma compose_result:
  "snd (compose w src) = Inr made \<Longrightarrow>
   \<exists>title summaryHtml img tt st.
     snd (summarizeFinancePortuguese w src) = Inr (title, summaryHtml) \<and>
     snd (generateImageBase64 w title) = Inr img \<and>
     to_string title = Inr tt \<and> to_string summaryHtml = Inr st \<and>
     made = (title, html_template img tt st, img)"
  by (auto simp: compose_def proj_simps split: sum.splits)

lemma acquire_unknown:
  "t \<noteq> ''text'' \<Longrightarrow> t \<noteq> ''link'' \<Longrightarrow> t \<noteq> ''voice'' \<Longrightarrow>
   acquire w b (JStr t) = ret (Inr (JStr []))"
  by (simp add: acquire_def)

lemma produce_status: "snd (produce cfg w b src) = Inr reply \<Longrightarrow> res_status reply = 200"
  by (auto simp: produce_result res_json_def split: sum.splits)

lemma produce_empty_first:
  "\<exists>rest. fst (produce cfg w b (JStr [])) = Chat_completion (prompt_head @ [] @ prompt_tail) # rest"
  by (simp add: produce_trace compose_trace summarize_trace)

text \<open>
  C7. A POST whose body has as type a non-empty string other than text, link and voice
  is not answered with 400: normalization makes no call and yields the empty string,
  the rest of the pipeline runs on it, and the first call of the trace is the chat
  completion whose prompt embeds the empty string.
\<close>

theorem unknown_type_is_summarized:
  assumes "http_method req = ''POST''" and "body req = JObj kvs"
    and "map_of kvs ''type'' = Some (JStr t)" and "t \<noteq> []"
    and "t \<noteq> ''text''" and "t \<noteq> ''link''" and "t \<noteq> ''voice''"
  shows "res_status (fst (handler cfg w req)) \<noteq> 400 \<and>
         acquire w (body req) (JStr t) = ([], Inr (Inr (JStr []))) \<and>
         try_block cfg w (body req) = produce cfg w (body req) (JStr []) \<and>
         (\<exists>rest. snd (handler cfg w req) =
                   Chat_completion (prompt_head @ [] @ prompt_tail) # rest)"
proof -
  have acq: "acquire w (body req) (JStr t) = ret (Inr (JStr []))"
    using assms(5-7) by (rule acquire_unknown)
  have tb: "try_block cfg w (body req) = produce cfg w (body req) (JStr [])"
    using assms(2,3,4) acq by (simp add: try_block_unfold io_simps)
  obtain rest where rest:
    "fst (produce cfg w (body req) (JStr [])) = Chat_completion (prompt_head @ [] @ prompt_tail) # rest"
    using produce_empty_first by blast
  have st: "res_status (fst (handler cfg w req)) \<noteq> 400"
    using assms(1) by (auto simp: handler_post tb error_reply_def split: sum.splits dest: produce_status)
  have tr: "\<exists>r. snd (handler cfg w req) = Chat_completion (prompt_head @ [] @ prompt_tail) # r"
    using assms(1) rest by (auto simp: handler_post tb split: sum.splits)
  show ?thesis using acq tb st tr by (simp add: ret_def)
qed


theorem unknown_type_is_summarized_witness:
  "res_status (fst (handler demo_config demo_world video_request)) \<noteq> 400 \<and>
   acquire demo_world (body video_request) (JStr ''video'') = ([], Inr (Inr (JStr []))) \<and>
   try_block demo_config demo_world (body video_request)
     = produce demo_config demo_world (body video_request) (JStr []) \<and>
   (\<exists>rest. snd (handler demo_config demo_world video_request) =
             Chat_completion (prompt_head @ [] @ prompt_tail) # rest)"
  by (rule unknown_type_is_summarized [where kvs = "[(''type'', JStr ''video'')]"])
     (simp_all add: video_request_def)

lemma acquire_reply:
  "snd (acquire w b ty) = Inr (Inl reply) \<Longrightarrow> res_status reply = 400 \<and> fst (acquire w b ty) = []"
  by (auto simp: acquire_def proj_simps res_json_def split: if_splits sum.splits)

lemma try_block_trace:
  "fst (try_block cfg w b) =
     (if truthy b \<and> truthy (get_opt b ''type'')
      then fst (acquire w b (get_opt b ''type'')) @
           (case snd (acquire w b (get_opt b ''type'')) of
              Inr (Inr src) \<Rightarrow> fst (produce cfg w b src)
            | _ \<Rightarrow> [])
      else [])"
  by (simp add: try_block_unfold proj_simps split: sum.splits)

lemma try_block_result:
  "snd (try_block cfg w b) =
     (if truthy b \<and> truthy (get_opt b ''type'')
      then (case snd (acquire w b (get_opt b ''type'')) of
              Inl e \<Rightarrow> Inl e
            | Inr (Inl reply) \<Rightarrow> Inr reply
            | Inr (Inr src) \<Rightarrow> snd (produce cfg w b src))
      else Inr (res_json 400 [] [(''error'', JStr ''Par?metros inv?lidos'')]))"
  by (simp add: try_block_unfold proj_simps split: sum.splits)

lemma handler_200:
  assumes "res_status (fst (handler cfg w req)) = 200"
  shows "\<exists>src made url.
           http_method req = ''POST'' \<and> truthy (body req) \<and>
           truthy (get_opt (body req) ''type'') \<and>
           snd (acquire w (body req) (get_opt (body req) ''type'')) = Inr (Inr src) \<and>
           snd (compose w src) = Inr made \<and>
           snd (publish cfg w (body req) (fst made) (fst (snd made))) = Inr url \<and>
           fst (handler cfg w req) =
             res_json 200 []
               [(''title'', fst made), (''html'', JStr (fst (snd made))),
                (''imageDataUrl'', JStr (snd (snd made))), (''bloggerPostUrl'', url)] \<and>
           snd (handler cfg w req) =
             fst (acquire w (body req) (get_opt (body req) ''type'')) @ fst (compose w src) @
             fst (publish cfg w (body req) (fst made) (fst (snd made)))"
proof -
  have post: "http_method req = ''POST''"
    using assms by (cases "http_method req = ''POST''") (simp_all add: handler_def res_json_def)
  obtain reply where r: "snd (try_block cfg w (body req)) = Inr reply"
    and h: "handler cfg w req = (reply, fst (try_block cfg w (body req)))"
    using assms post by (cases "snd (try_block cfg w (body req))")
                        (simp_all add: handler_post error_reply_def)
  have st: "res_status reply = 200" using assms h by simp
  have tt: "truthy (body req) \<and> truthy (get_opt (body req) ''type'')"
    using r st by (auto simp: try_block_result res_json_def split: if_splits)
  obtain src where a: "snd (acquire w (body req) (get_opt (body req) ''type'')) = Inr (Inr src)"
    and p: "snd (produce cfg w (body req) src) = Inr reply"
    using r st tt by (auto simp: try_block_result split: sum.splits dest: acquire_reply)
  obtain made url where c: "snd (compose w src) = Inr made"
    and u: "snd (publish cfg w (body req) (fst made) (fst (snd made))) = Inr url"
    and rep: "reply = res_json 200 []
               [(''title'', fst made), (''html'', JStr (fst (snd made))),
                (''imageDataUrl'', JStr (snd (snd made))), (''bloggerPostUrl'', url)]"
    using p by (auto simp: produce_result split: sum.splits)
  have tr: "fst (try_block cfg w (body req)) =
          fst (acquire w (body req) (get_opt (body req) ''type'')) @ fst (compose w src) @
          fst (publish cfg w (body req) (fst made) (fst (snd made)))"
    using tt a c by (simp add: try_block_trace produce_trace)
  show ?thesis
    apply (rule exI [where x = src])
    apply (rule exI [where x = made])
    apply (rule exI [where x = url])
    using post tt a c u rep h tr by simp
qed

lemma html_template_longer: "html_template img tt st \<noteq> st"
proof
  assume "html_template img tt st = st"
  then have "length (html_template img tt st) = length st" by simp
  then show False by (simp add: html_template_def NL_def)
qed

section \<open>Evaluation on the examples\<close>

lemmas pipeline_defs =
  handler_def try_block_def acquire_def produce_def compose_def publish_def
  summarizeFinancePortuguese_def content_of_def generateImageBase64_def postToBlogger_def
  ensureGoogleAccessToken_def fetchTextFromLink_def transcribeFromUrl_def
  res_json_def stringify_object_def missing_def env_str_def
  bind_def ret_def throw_def lift_def call_def

lemma demo_text_200:
  "res_status (fst (handler demo_config demo_world (text_request False))) = 200"
  by (simp add: pipeline_defs text_request_def demo_world_def demo_parse_def
        demo_completion_def)

section \<open>The page of a successful reply\<close>

text \<open>
  C8. In every 200 reply, the html field is the page built around the summary: a div
  that holds the image, whose src is the imageDataUrl field of the reply and whose alt
  is the title (as a template literal prints it), followed by the html fragment of
  the summarizer. It is never the fragment alone.
\<close>

theorem success_page_wraps_image:
  assumes \<open>res_status (fst (handler cfg w req)) = 200\<close>
  shows \<open>\<exists>src title summaryHtml img tt st.
           snd (summarizeFinancePortuguese w src) = Inr (title, summaryHtml) \<and>
           snd (generateImageBase64 w title) = Inr img \<and>
           to_string title = Inr tt \<and> to_string summaryHtml = Inr st \<and>
           get_opt (res_body (fst (handler cfg w req))) ''title'' = title \<and>
           get_opt (res_body (fst (handler cfg w req))) ''imageDataUrl'' = JStr img \<and>
           get_opt (res_body (fst (handler cfg w req))) ''html'' = JStr (html_template img tt st) \<and>
           html_template img tt st =
             NL @ ''      <div style="text-align:center;margin:0 0 16px 0">'' @ NL @
             ''        <img src="'' @ img @ ''" alt="'' @ tt @
             ''" style="max-width:100%;height:auto" />'' @ NL @
             ''      </div>'' @ NL @
             ''      '' @ st @ NL @ ''    '' \<and>
           html_template img tt st \<noteq> st\<close>
proof -
  from handler_200 [OF assms] obtain src made url where
    c: "snd (compose w src) = Inr made" and
    f: "fst (handler cfg w req) =
             res_json 200 []
               [(''title'', fst made), (''html'', JStr (fst (snd made))),
                (''imageDataUrl'', JStr (snd (snd made))), (''bloggerPostUrl'', url)]"
    by blast
  from compose_result [OF c] obtain title summaryHtml img tt st where
    s: "snd (summarizeFinancePortuguese w src) = Inr (title, summaryHtml)"
    and g: "snd (generateImageBase64 w title) = Inr img"
    and t: "to_string title = Inr tt" "to_string summaryHtml = Inr st"
    and m: "made = (title, html_template img tt st, img)"
    by blast
  have "get_opt (res_body (fst (handler cfg w req))) ''title'' = title"
    and "get_opt (res_body (fst (handler cfg w req))) ''imageDataUrl'' = JStr img"
    and "get_opt (res_body (fst (handler cfg w req))) ''html'' = JStr (html_template img tt st)"
    by (simp_all add: f m res_json_def stringify_object_def)
  with s g t html_template_longer html_template_def show ?thesis by blast
qed

theorem success_page_wraps_image_witness:
  \<open>res_status (fst (handler demo_config demo_world (text_request False))) = 200 \<and>
   (\<exists>src title summaryHtml img tt st.
      snd (summarizeFinancePortuguese demo_world src) = Inr (title, summaryHtml) \<and>
      snd (generateImageBase64 demo_world title) = Inr img \<and>
      to_string title = Inr tt \<and> to_string summaryHtml = Inr st \<and>
      get_opt (res_body (fst (handler demo_config demo_world (text_request False)))) ''title'' = title \<and>
      get_opt (res_body (fst (handler demo_config demo_world (text_request False)))) ''imageDataUrl''
        = JStr img \<and>
      get_opt (res_body (fst (handler demo_config demo_world (text_request False)))) ''html''
        = JStr (html_template img tt st) \<and>
      html_template img tt st =
        NL @ ''      <div style="text-align:center;margin:0 0 16px 0">'' @ NL @
        ''        <img src="'' @ img @ ''" alt="'' @ tt @
        ''" style="max-width:100%;height:auto" />'' @ NL @
        ''      </div>'' @ NL @
        ''      '' @ st @ NL @ ''    '' \<and>
      html_template img tt st \<noteq> st)\<close>
  using success_page_wraps_image [OF demo_text_200] demo_text_200 by blast

section \<open>Publication\<close>

lemma postToBlogger_done:
  assumes "snd (postToBlogger cfg w title html) = Inr post"
  shows "\<exists>tok. fst (postToBlogger cfg w title html) =
           [Token_exchange (token_params cfg),
            Blogger_insert (blogger_endpoint (env_str (BLOGGER_BLOG_ID cfg))) (''Bearer '' @ tok)
              title html]"
proof -
  have nb: "\<not> missing (BLOGGER_BLOG_ID cfg)"
    using assms by (auto simp: postToBlogger_no_blog snd_throw)
  have nc: "\<not> credentials_missing cfg"
    using assms nb by (auto simp: postToBlogger_no_credentials snd_throw)
  show ?thesis
    using assms nb nc
    by (auto simp: postToBlogger_def proj_simps ensure_trace split: sum.splits if_splits)
qed

lemma publish_off:
  "truthy b \<Longrightarrow> \<not> truthy (get_opt b ''postToBlogger'') \<Longrightarrow>
   publish cfg w b title html = ret JUndefined"
  by (simp add: publish_unfold)

lemma publish_on:
  "truthy b \<Longrightarrow> truthy (get_opt b ''postToBlogger'') \<Longrightarrow>
   fst (publish cfg w b title html) = fst (postToBlogger cfg w title html) \<and>
   snd (publish cfg w b title html) =
     (case snd (postToBlogger cfg w title html) of Inl e \<Rightarrow> Inl e | Inr post \<Rightarrow> Inr (fst post))"
  by (simp add: publish_unfold proj_simps split: sum.splits)

lemma publish_steps:
  "e \<in> set (fst (publish cfg w b title html)) \<Longrightarrow> step_of e = Token_step \<or> step_of e = Post_step"
proof (cases "truthy b \<and> truthy (get_opt b ''postToBlogger'')")
  case True
  assume "e \<in> set (fst (publish cfg w b title html))"
  with True have "e \<in> set (fst (postToBlogger cfg w title html))" by (simp add: publish_on)
  then show ?thesis using postToBlogger_trace [of cfg w title html] by auto
next
  case False
  assume e: "e \<in> set (fst (publish cfg w b title html))"
  have "fst (publish cfg w b title html) = []"
  proof (cases "truthy b")
    case True
    with False show ?thesis by (simp add: publish_off fst_ret)
  next
    case False
    then show ?thesis by (cases b) (simp_all add: publish_def proj_simps)
  qed
  with e show ?thesis by simp
qed

text \<open>The trace of the handler, whatever the request.\<close>

lemma handler_trace_steps:
  assumes "e \<in> set (snd (handler cfg w req))"
  shows "step_of e = Log_step \<or>
         (step_of e = Normalize \<or> step_of e = Summarize \<or> step_of e = Illustrate) \<or>
         (\<exists>title html. e \<in> set (fst (publish cfg w (body req) title html)))"
proof (cases "http_method req = ''POST''")
  case False
  with assms show ?thesis by (simp add: handler_def)
next
  case True
  have tb: "e \<in> set (fst (try_block cfg w (body req))) \<or> step_of e = Log_step"
    using assms True by (auto simp: handler_post split: sum.splits)
  show ?thesis
  proof (cases "step_of e = Log_step")
    case True
    then show ?thesis by simp
  next
    case False
    with tb have "e \<in> set (fst (try_block cfg w (body req)))" by simp
    then show ?thesis
      by (auto simp: try_block_trace produce_trace split: if_splits sum.splits
            dest: acquire_steps compose_steps)
  qed
qed

lemma truthy_get_opt: "truthy (get_opt b k) \<Longrightarrow> truthy b"
  by (cases b) simp_all

lemma publish_off_trace:
  "\<not> truthy (get_opt b ''postToBlogger'') \<Longrightarrow> fst (publish cfg w b title html) = []"
  by (cases b) (simp_all add: publish_def proj_simps)

lemma publish_off_result:
  "\<not> truthy (get_opt b ''postToBlogger'') \<Longrightarrow> snd (publish cfg w b title html) = Inr url
   \<Longrightarrow> url = JUndefined"
  by (cases b) (simp_all add: publish_def proj_simps)

lemma keys_of_reply:
  "''bloggerPostUrl'' \<in> set (keys_of (res_body (res_json 200 []
      [(''title'', t), (''html'', h), (''imageDataUrl'', i), (''bloggerPostUrl'', url)])))
   \<longleftrightarrow> url \<noteq> JUndefined"
  by (simp add: res_json_def stringify_object_def)

lemma get_opt_reply:
  "get_opt (res_body (res_json 200 []
      [(''title'', t), (''html'', h), (''imageDataUrl'', i), (''bloggerPostUrl'', url)]))
     ''bloggerPostUrl'' = url"
  by (simp add: res_json_def stringify_object_def)

text \<open>
  C4. When postToBlogger is false, absent or any other falsy value, the trace of the
  handler holds neither a token exchange nor a post creation, and a 200 reply has no
  bloggerPostUrl field. In any 200 reply that has the field, publication was requested
  and the publish step returned: the field is the url it returned, and the post
  creation call is in the trace.
\<close>

theorem publication_only_on_request:
  "(\<not> truthy (get_opt (body req) ''postToBlogger'') \<longrightarrow>
      (\<forall>e\<in>set (snd (handler cfg w req)). step_of e \<noteq> Token_step \<and> step_of e \<noteq> Post_step) \<and>
      (res_status (fst (handler cfg w req)) = 200 \<longrightarrow>
         ''bloggerPostUrl'' \<notin> set (keys_of (res_body (fst (handler cfg w req)))))) \<and>
   (res_status (fst (handler cfg w req)) = 200 \<and>
    ''bloggerPostUrl'' \<in> set (keys_of (res_body (fst (handler cfg w req)))) \<longrightarrow>
      truthy (get_opt (body req) ''postToBlogger'') \<and>
      (\<exists>title html url ident endpoint auth.
          snd (postToBlogger cfg w title html) = Inr (url, ident) \<and> url \<noteq> JUndefined \<and>
          get_opt (res_body (fst (handler cfg w req))) ''bloggerPostUrl'' = url \<and>
          Blogger_insert endpoint auth title html \<in> set (snd (handler cfg w req))))"
proof (intro conjI impI ballI)
  fix e
  assume off: "\<not> truthy (get_opt (body req) ''postToBlogger'')"
    and e: "e \<in> set (snd (handler cfg w req))"
  from handler_trace_steps [OF e] off
  show "step_of e \<noteq> Token_step" and "step_of e \<noteq> Post_step"
    by (auto simp: publish_off_trace)
next
  assume off: "\<not> truthy (get_opt (body req) ''postToBlogger'')"
    and ok: "res_status (fst (handler cfg w req)) = 200"
  from handler_200 [OF ok] obtain src made url where
    u: "snd (publish cfg w (body req) (fst made) (fst (snd made))) = Inr url" and
    f: "fst (handler cfg w req) =
             res_json 200 []
               [(''title'', fst made), (''html'', JStr (fst (snd made))),
                (''imageDataUrl'', JStr (snd (snd made))), (''bloggerPostUrl'', url)]"
    by blast
  from publish_off_result [OF off u] show
    "''bloggerPostUrl'' \<notin> set (keys_of (res_body (fst (handler cfg w req))))"
    by (simp add: f keys_of_reply)
next
  assume a: "res_status (fst (handler cfg w req)) = 200 \<and>
    ''bloggerPostUrl'' \<in> set (keys_of (res_body (fst (handler cfg w req))))"
  then have ok: "res_status (fst (handler cfg w req)) = 200" by simp
  from handler_200 [OF ok] obtain src made url where
    tb: "truthy (body req)" and
    u: "snd (publish cfg w (body req) (fst made) (fst (snd made))) = Inr url" and
    f: "fst (handler cfg w req) =
             res_json 200 []
               [(''title'', fst made), (''html'', JStr (fst (snd made))),
                (''imageDataUrl'', JStr (snd (snd made))), (''bloggerPostUrl'', url)]" and
    t: "snd (handler cfg w req) =
             fst (acquire w (body req) (get_opt (body req) ''type'')) @ fst (compose w src) @
             fst (publish cfg w (body req) (fst made) (fst (snd made)))"
    by blast
  from a have present: "url \<noteq> JUndefined" by (simp add: f keys_of_reply)
  show on: "truthy (get_opt (body req) ''postToBlogger'')"
    using publish_off_result [OF _ u] present by blast
  from publish_on [OF tb on, of cfg w "fst made" "fst (snd made)"] u
  obtain post where p: "snd (postToBlogger cfg w (fst made) (fst (snd made))) = Inr post"
    and pu: "url = fst post"
    and pt: "fst (publish cfg w (body req) (fst made) (fst (snd made)))
               = fst (postToBlogger cfg w (fst made) (fst (snd made)))"
    by (auto split: sum.splits)
  from postToBlogger_done [OF p] obtain tok where
    "fst (postToBlogger cfg w (fst made) (fst (snd made))) =
           [Token_exchange (token_params cfg),
            Blogger_insert (blogger_endpoint (env_str (BLOGGER_BLOG_ID cfg))) (''Bearer '' @ tok)
              (fst made) (fst (snd made))]"
    by blast
  then have "Blogger_insert (blogger_endpoint (env_str (BLOGGER_BLOG_ID cfg))) (''Bearer '' @ tok)
              (fst made) (fst (snd made)) \<in> set (snd (handler cfg w req))"
    by (simp add: t pt)
  moreover have "snd (postToBlogger cfg w (fst made) (fst (snd made))) = Inr (url, snd post)"
    using p pu by simp
  moreover have "get_opt (res_body (fst (handler cfg w req))) ''bloggerPostUrl'' = url"
    by (simp add: f get_opt_reply)
  ultimately show "\<exists>title html url ident endpoint auth.
          snd (postToBlogger cfg w title html) = Inr (url, ident) \<and> url \<noteq> JUndefined \<and>
          get_opt (res_body (fst (handler cfg w req))) ''bloggerPostUrl'' = url \<and>
          Blogger_insert endpoint auth title html \<in> set (snd (handler cfg w req))"
    using present by blast
qed



lemma demo_publish_eval:
  "handler demo_config demo_world (text_request True) =
     (res_json 200 []
        [(''title'', JStr ''Selic''),
         (''html'', JStr (html_template ''data:image/png;base64,iVBORw0KGgo='' ''Selic'' ''<p>Juros</p>'')),
         (''imageDataUrl'', JStr ''data:image/png;base64,iVBORw0KGgo=''),
         (''bloggerPostUrl'', JStr ''https://blog.example/1'')],
      [Chat_completion (prompt_head @ ''Selic sobe'' @ prompt_tail),
       Image_generation (image_prompt ''Selic''),
       Token_exchange (token_params demo_config),
       Blogger_insert (blogger_endpoint ''42'') ''Bearer ya29'' (JStr ''Selic'')
         (html_template ''data:image/png;base64,iVBORw0KGgo='' ''Selic'' ''<p>Juros</p>'')])"
  by (simp add: pipeline_defs text_request_def demo_world_def demo_parse_def
        demo_completion_def demo_config_def)

lemma demo_text_eval:
  "handler demo_config demo_world (text_request False) =
     (res_json 200 []
        [(''title'', JStr ''Selic''),
         (''html'', JStr (html_template ''data:image/png;base64,iVBORw0KGgo='' ''Selic'' ''<p>Juros</p>'')),
         (''imageDataUrl'', JStr ''data:image/png;base64,iVBORw0KGgo=''),
         (''bloggerPostUrl'', JUndefined)],
      [Chat_completion (prompt_head @ ''Selic sobe'' @ prompt_tail),
       Image_generation (image_prompt ''Selic'')])"
  by (simp add: pipeline_defs text_request_def demo_world_def demo_parse_def
        demo_completion_def demo_config_def)

theorem publication_only_on_request_witness:
  "\<not> truthy (get_opt (body (text_request False)) ''postToBlogger'') \<and>
   res_status (fst (handler demo_config demo_world (text_request False))) = 200 \<and>
   ''bloggerPostUrl'' \<notin> set (keys_of (res_body (fst (handler demo_config demo_world (text_request False))))) \<and>
   \<not> (\<exists>e\<in>set (snd (handler demo_config demo_world (text_request False))).
         step_of e = Token_step \<or> step_of e = Post_step) \<and>
   res_status (fst (handler demo_config demo_world (text_request True))) = 200 \<and>
   ''bloggerPostUrl'' \<in> set (keys_of (res_body (fst (handler demo_config demo_world (text_request True))))) \<and>
   truthy (get_opt (body (text_request True)) ''postToBlogger'') \<and>
   (\<exists>title html url ident endpoint auth.
       snd (postToBlogger demo_config demo_world title html) = Inr (url, ident) \<and> url \<noteq> JUndefined \<and>
       get_opt (res_body (fst (handler demo_config demo_world (text_request True)))) ''bloggerPostUrl'' = url \<and>
       Blogger_insert endpoint auth title html \<in> set (snd (handler demo_config demo_world (text_request True))))"
proof -
  have off: "\<not> truthy (get_opt (body (text_request False)) ''postToBlogger'')"
    by (simp add: text_request_def)
  have ok1: "res_status (fst (handler demo_config demo_world (text_request False))) = 200"
    by (simp add: demo_text_eval res_json_def)
  have ok2: "res_status (fst (handler demo_config demo_world (text_request True))) = 200"
    by (simp add: demo_publish_eval res_json_def)
  have key: "''bloggerPostUrl'' \<in> set (keys_of (res_body (fst (handler demo_config demo_world (text_request True)))))"
    by (simp add: demo_publish_eval res_json_def stringify_object_def)
  show ?thesis
    using publication_only_on_request [of "text_request False" demo_config demo_world]
      publication_only_on_request [of "text_request True" demo_config demo_world] off ok1 ok2 key
    by blast
qed

lemma postToBlogger_config_error:
  "missing (BLOGGER_BLOG_ID cfg) \<or> credentials_missing cfg \<Longrightarrow>
   postToBlogger cfg w title html =
     throw (Exn (if missing (BLOGGER_BLOG_ID cfg) then ''BLOGGER_BLOG_ID ausente''
                 else ''Vari?veis GOOGLE_CLIENT_ID/SECRET/REFRESH_TOKEN ausentes''))"
  by (cases "missing (BLOGGER_BLOG_ID cfg)")
     (simp_all add: postToBlogger_no_blog postToBlogger_no_credentials)

lemma publish_config_error_trace:
  assumes "missing (BLOGGER_BLOG_ID cfg) \<or> credentials_missing cfg"
  shows "fst (publish cfg w b title html) = []"
proof (cases "truthy (get_opt b ''postToBlogger'')")
  case True
  then have "truthy b" by (rule truthy_get_opt)
  from publish_on [OF this True] show ?thesis
    by (simp add: postToBlogger_config_error [OF assms] fst_throw)
next
  case False
  then show ?thesis by (rule publish_off_trace)
qed

lemma publish_config_error_result:
  assumes "missing (BLOGGER_BLOG_ID cfg) \<or> credentials_missing cfg"
    and "truthy (get_opt b ''postToBlogger'')"
  shows "snd (publish cfg w b title html) =
     Inl (Exn (if missing (BLOGGER_BLOG_ID cfg) then ''BLOGGER_BLOG_ID ausente''
               else ''Vari?veis GOOGLE_CLIENT_ID/SECRET/REFRESH_TOKEN ausentes''))"
proof -
  have "truthy b" using assms(2) by (rule truthy_get_opt)
  from publish_on [OF this assms(2)] show ?thesis
    by (simp add: postToBlogger_config_error [OF assms(1)] snd_throw)
qed

lemma handler_reaching_publish:
  assumes "http_method req = ''POST''" and "truthy (get_opt (body req) ''type'')"
    and "snd (acquire w (body req) (get_opt (body req) ''type'')) = Inr (Inr src)"
    and "snd (compose w src) = Inr made"
    and "snd (publish cfg w (body req) (fst made) (fst (snd made))) = Inl err"
  shows "fst (handler cfg w req) = error_reply err"
proof -
  have "truthy (body req)" using assms(2) by (rule truthy_get_opt)
  then have "snd (try_block cfg w (body req)) = Inl err"
    using assms(2-5) by (simp add: try_block_result produce_result)
  then show ?thesis using assms(1) by (simp add: handler_post)
qed

lemma no_blog_eval:
  "handler config_no_blog demo_world (text_request True) =
     (\<lparr>res_status = 500, res_headers = [],
       res_body = JObj [(''error'', JStr ''BLOGGER_BLOG_ID ausente'')]\<rparr>,
      [Chat_completion (prompt_head @ ''Selic sobe'' @ prompt_tail),
       Image_generation (image_prompt ''Selic''),
       Console_error (Exn ''BLOGGER_BLOG_ID ausente'')])"
  by (simp add: pipeline_defs text_request_def demo_world_def demo_parse_def
        demo_completion_def demo_config_def config_no_blog_def)

lemma no_refresh_eval:
  "handler config_no_refresh demo_world (text_request True) =
     (\<lparr>res_status = 500, res_headers = [],
       res_body = JObj [(''error'', JStr ''Vari?veis GOOGLE_CLIENT_ID/SECRET/REFRESH_TOKEN ausentes'')]\<rparr>,
      [Chat_completion (prompt_head @ ''Selic sobe'' @ prompt_tail),
       Image_generation (image_prompt ''Selic''),
       Console_error (Exn ''Vari?veis GOOGLE_CLIENT_ID/SECRET/REFRESH_TOKEN ausentes'')])"
  by (simp add: pipeline_defs text_request_def demo_world_def demo_parse_def
        demo_completion_def demo_config_def config_no_refresh_def)

text \<open>
  C3. When one of the three OAuth credentials is not configured: the post creation call
  is never made, whatever the request; a request that asks for publication is never
  answered with 200; and when such a POST reaches the publish step (its source text
  was acquired and the summary, image and page were made), the reply is 500 with the
  configuration error as its message: that of the missing credentials, or that of the
  missing blog identifier when this one is missing too.
\<close>

theorem missing_credentials_is_500:
  assumes "credentials_missing cfg"
  shows "(\<forall>e\<in>set (snd (handler cfg w req)). step_of e \<noteq> Post_step) \<and>
         (truthy (get_opt (body req) ''postToBlogger'') \<longrightarrow>
            res_status (fst (handler cfg w req)) \<noteq> 200) \<and>
         (http_method req = ''POST'' \<and> truthy (get_opt (body req) ''postToBlogger'') \<and>
          truthy (get_opt (body req) ''type'') \<and>
          snd (acquire w (body req) (get_opt (body req) ''type'')) = Inr (Inr src) \<and>
          snd (compose w src) = Inr made \<longrightarrow>
            res_status (fst (handler cfg w req)) = 500 \<and>
            res_body (fst (handler cfg w req)) =
              JObj [(''error'',
                     JStr (if missing (BLOGGER_BLOG_ID cfg) then ''BLOGGER_BLOG_ID ausente''
                           else ''Vari?veis GOOGLE_CLIENT_ID/SECRET/REFRESH_TOKEN ausentes''))])"
proof (intro conjI impI ballI)
  fix e
  assume e: "e \<in> set (snd (handler cfg w req))"
  from handler_trace_steps [OF e] assms show "step_of e \<noteq> Post_step"
    by (auto simp: publish_config_error_trace)
next
  assume on: "truthy (get_opt (body req) ''postToBlogger'')"
  show "res_status (fst (handler cfg w req)) \<noteq> 200"
  proof
    assume "res_status (fst (handler cfg w req)) = 200"
    from handler_200 [OF this] obtain made :: "jsval \<times> string \<times> string" and url where
      "snd (publish cfg w (body req) (fst made) (fst (snd made))) = Inr url" by blast
    then show False using publish_config_error_result [OF _ on] assms by simp
  qed
next
  assume a: "http_method req = ''POST'' \<and> truthy (get_opt (body req) ''postToBlogger'') \<and>
          truthy (get_opt (body req) ''type'') \<and>
          snd (acquire w (body req) (get_opt (body req) ''type'')) = Inr (Inr src) \<and>
          snd (compose w src) = Inr made"
  have "snd (publish cfg w (body req) (fst made) (fst (snd made))) =
     Inl (Exn (if missing (BLOGGER_BLOG_ID cfg) then ''BLOGGER_BLOG_ID ausente''
               else ''Vari?veis GOOGLE_CLIENT_ID/SECRET/REFRESH_TOKEN ausentes''))"
    using publish_config_error_result a assms by blast
  with a have f: "fst (handler cfg w req) =
     error_reply (Exn (if missing (BLOGGER_BLOG_ID cfg) then ''BLOGGER_BLOG_ID ausente''
               else ''Vari?veis GOOGLE_CLIENT_ID/SECRET/REFRESH_TOKEN ausentes''))"
    using handler_reaching_publish by blast
  show "res_status (fst (handler cfg w req)) = 500"
    by (simp add: f error_reply_def)
  show "res_body (fst (handler cfg w req)) =
              JObj [(''error'',
                     JStr (if missing (BLOGGER_BLOG_ID cfg) then ''BLOGGER_BLOG_ID ausente''
                           else ''Vari?veis GOOGLE_CLIENT_ID/SECRET/REFRESH_TOKEN ausentes''))]"
    by (simp add: f error_reply_def)
qed


lemma demo_acquire_eval:
  "snd (acquire demo_world (body (text_request p)) (get_opt (body (text_request p)) ''type''))
     = Inr (Inr (JStr ''Selic sobe''))"
  by (simp add: acquire_def text_request_def bind_def ret_def lift_def)

lemma demo_compose_eval:
  "snd (compose demo_world (JStr ''Selic sobe'')) =
     Inr (JStr ''Selic'',
          html_template ''data:image/png;base64,iVBORw0KGgo='' ''Selic'' ''<p>Juros</p>'',
          ''data:image/png;base64,iVBORw0KGgo='')"
  by (simp add: compose_def summarizeFinancePortuguese_def content_of_def generateImageBase64_def
        demo_world_def demo_parse_def demo_completion_def bind_def ret_def lift_def call_def)

theorem missing_credentials_is_500_witness:
  "credentials_missing config_no_refresh \<and>
   http_method (text_request True) = ''POST'' \<and>
   truthy (get_opt (body (text_request True)) ''postToBlogger'') \<and>
   \<not> (\<exists>e\<in>set (snd (handler config_no_refresh demo_world (text_request True))).
         step_of e = Post_step) \<and>
   res_status (fst (handler config_no_refresh demo_world (text_request True))) = 500 \<and>
   res_body (fst (handler config_no_refresh demo_world (text_request True))) =
     JObj [(''error'', JStr ''Vari?veis GOOGLE_CLIENT_ID/SECRET/REFRESH_TOKEN ausentes'')]"
proof -
  have cm: "credentials_missing config_no_refresh"
    by (simp add: credentials_missing_def config_no_refresh_def demo_config_def missing_def)
  have nb: "\<not> missing (BLOGGER_BLOG_ID config_no_refresh)"
    by (simp add: config_no_refresh_def demo_config_def missing_def)
  have h: "http_method (text_request True) = ''POST''"
    "truthy (get_opt (body (text_request True)) ''postToBlogger'')"
    "truthy (get_opt (body (text_request True)) ''type'')"
    by (simp_all add: text_request_def)
  show ?thesis
    using missing_credentials_is_500 [OF cm, of demo_world "text_request True"
        "JStr ''Selic sobe''"
        "(JStr ''Selic'',
          html_template ''data:image/png;base64,iVBORw0KGgo='' ''Selic'' ''<p>Juros</p>'',
          ''data:image/png;base64,iVBORw0KGgo='')"]
      cm nb h demo_acquire_eval [of True] demo_compose_eval
    by auto
qed

text \<open>
  C2, as amended. The publisher makes its calls in one order: no call, or the token
  exchange alone, or the token exchange followed by the post creation. The blog
  identifier is checked before anything else: when it is missing, the publisher
  throws the configuration error without any call, so that the trace of the handler
  holds neither a token exchange nor a post creation.
\<close>

theorem token_exchange_then_post:
  "(fst (postToBlogger cfg w title html) = [] \<or>
    fst (postToBlogger cfg w title html) = [Token_exchange (token_params cfg)] \<or>
    (\<exists>tok. fst (postToBlogger cfg w title html) =
       [Token_exchange (token_params cfg),
        Blogger_insert (blogger_endpoint (env_str (BLOGGER_BLOG_ID cfg))) (''Bearer '' @ tok)
          title html])) \<and>
   (missing (BLOGGER_BLOG_ID cfg) \<longrightarrow>
      postToBlogger cfg w title html = ([], Inl (Exn ''BLOGGER_BLOG_ID ausente'')) \<and>
      (\<forall>e\<in>set (snd (handler cfg w req)). step_of e \<noteq> Token_step \<and> step_of e \<noteq> Post_step))"
proof (intro conjI impI ballI)
  show "fst (postToBlogger cfg w title html) = [] \<or>
    fst (postToBlogger cfg w title html) = [Token_exchange (token_params cfg)] \<or>
    (\<exists>tok. fst (postToBlogger cfg w title html) =
       [Token_exchange (token_params cfg),
        Blogger_insert (blogger_endpoint (env_str (BLOGGER_BLOG_ID cfg))) (''Bearer '' @ tok)
          title html])"
    by (rule postToBlogger_trace)
next
  assume "missing (BLOGGER_BLOG_ID cfg)"
  then show "postToBlogger cfg w title html = ([], Inl (Exn ''BLOGGER_BLOG_ID ausente''))"
    by (simp add: postToBlogger_no_blog throw_def)
next
  fix e
  assume m: "missing (BLOGGER_BLOG_ID cfg)" and e: "e \<in> set (snd (handler cfg w req))"
  from handler_trace_steps [OF e] m
  show "step_of e \<noteq> Token_step" and "step_of e \<noteq> Post_step"
    by (auto simp: publish_config_error_trace)
qed


theorem token_exchange_then_post_witness:
  "missing (BLOGGER_BLOG_ID config_no_blog) \<and>
   postToBlogger config_no_blog demo_world (JStr ''Selic'') ''<p>Juros</p>''
     = ([], Inl (Exn ''BLOGGER_BLOG_ID ausente'')) \<and>
   \<not> (\<exists>e\<in>set (snd (handler config_no_blog demo_world (text_request True))).
         step_of e = Token_step \<or> step_of e = Post_step)"
proof -
  have m: "missing (BLOGGER_BLOG_ID config_no_blog)"
    by (simp add: config_no_blog_def demo_config_def missing_def)
  show ?thesis
    using token_exchange_then_post
        [of config_no_blog demo_world "JStr ''Selic''" "''<p>Juros</p>''" "text_request True"] m
    by blast
qed

text \<open>
  C2 as stated fails: with the three credentials configured and the blog identifier
  missing, a request that asks for publication gets the configuration error and the
  trace holds no token exchange, so the error does not come after one.
\<close>

theorem blog_id_checked_before_token_exchange:
  "missing (BLOGGER_BLOG_ID config_no_blog) \<and> \<not> credentials_missing config_no_blog \<and>
   handler config_no_blog demo_world (text_request True) =
     (\<lparr>res_status = 500, res_headers = [],
       res_body = JObj [(''error'', JStr ''BLOGGER_BLOG_ID ausente'')]\<rparr>,
      [Chat_completion (prompt_head @ ''Selic sobe'' @ prompt_tail),
       Image_generation (image_prompt ''Selic''),
       Console_error (Exn ''BLOGGER_BLOG_ID ausente'')])"
  by (simp add: no_blog_eval)
     (simp add: config_no_blog_def demo_config_def missing_def credentials_missing_def)

section \<open>Summarization\<close>

lemma handler_trace_prefix:
  assumes "http_method req = ''POST''" and "truthy (get_opt (body req) ''type'')"
    and "snd (acquire w (body req) (get_opt (body req) ''type'')) = Inr (Inr src)"
  shows "\<exists>rest. snd (handler cfg w req) =
           fst (acquire w (body req) (get_opt (body req) ''type'')) @ fst (compose w src) @ rest"
proof -
  have tb: "truthy (body req)" using assms(2) by (rule truthy_get_opt)
  have "\<exists>r. fst (try_block cfg w (body req)) =
           fst (acquire w (body req) (get_opt (body req) ''type'')) @ fst (compose w src) @ r"
    using tb assms(2,3) by (simp add: try_block_trace produce_trace)
  then show ?thesis
    using assms(1) by (auto simp: handler_post split: sum.splits)
qed

lemma handler_compose_failure:
  assumes "http_method req = ''POST''" and "truthy (get_opt (body req) ''type'')"
    and "snd (acquire w (body req) (get_opt (body req) ''type'')) = Inr (Inr src)"
    and "snd (compose w src) = Inl e"
  shows "handler cfg w req =
           (error_reply e,
            fst (acquire w (body req) (get_opt (body req) ''type'')) @ fst (compose w src) @
            [Console_error e])"
proof -
  have tb: "truthy (body req)" using assms(2) by (rule truthy_get_opt)
  have "snd (try_block cfg w (body req)) = Inl e"
    using tb assms(2-4) by (simp add: try_block_result produce_result)
  moreover have "fst (try_block cfg w (body req)) =
      fst (acquire w (body req) (get_opt (body req) ''type'')) @ fst (compose w src)"
    using tb assms(2-4) by (simp add: try_block_trace produce_trace)
  ultimately show ?thesis using assms(1) by (simp add: handler_post)
qed

lemma chat_in_trace:
  assumes "Chat_completion p \<in> set (snd (handler cfg w req))"
  shows "\<exists>src s. http_method req = ''POST'' \<and> truthy (get_opt (body req) ''type'') \<and>
           snd (acquire w (body req) (get_opt (body req) ''type'')) = Inr (Inr src) \<and>
           to_string src = Inr s \<and> p = prompt_head @ s @ prompt_tail"
proof -
  have post: "http_method req = ''POST''"
    using assms by (cases "http_method req = ''POST''") (simp_all add: handler_def)
  have tb: "Chat_completion p \<in> set (fst (try_block cfg w (body req)))"
    using assms post by (auto simp: handler_post split: sum.splits)
  then have ty: "truthy (get_opt (body req) ''type'')"
    by (auto simp: try_block_trace split: if_splits)
  have na: "Chat_completion p \<notin> set (fst (acquire w (body req) (get_opt (body req) ''type'')))"
    using acquire_steps by fastforce
  have "\<exists>src. snd (acquire w (body req) (get_opt (body req) ''type'')) = Inr (Inr src) \<and>
          Chat_completion p \<in> set (fst (produce cfg w (body req) src))"
  proof (cases "snd (acquire w (body req) (get_opt (body req) ''type''))")
    case (Inl e)
    with tb ty na show ?thesis by (simp add: try_block_trace split: if_splits)
  next
    case (Inr x)
    with tb ty na show ?thesis by (cases x) (simp_all add: try_block_trace split: if_splits)
  qed
  then obtain src where
    a: "snd (acquire w (body req) (get_opt (body req) ''type'')) = Inr (Inr src)"
    and pr: "Chat_completion p \<in> set (fst (produce cfg w (body req) src))"
    by blast
  have np: "\<And>t h. Chat_completion p \<notin> set (fst (publish cfg w (body req) t h))"
    using publish_steps by fastforce
  from pr np have "Chat_completion p \<in> set (fst (compose w src))"
    by (auto simp: produce_trace split: sum.splits)
  then have "\<exists>s. to_string src = Inr s \<and> p = prompt_head @ s @ prompt_tail"
    by (auto simp: compose_trace summarize_trace generate_trace split: sum.splits)
  with post ty a show ?thesis by blast
qed

lemma summarize_bad_json:
  assumes "to_string src = Inr s"
    and "chat_completion w (prompt_head @ s @ prompt_tail) = Inr c"
    and "JSON_parse w (content_of c) = Inl e"
  shows "summarizeFinancePortuguese w src = ([Chat_completion (prompt_head @ s @ prompt_tail)], Inl e)"
  using assms by (simp add: summarizeFinancePortuguese_def bind_def lift_def call_def)

lemma summarize_object:
  assumes "to_string src = Inr s"
    and "chat_completion w (prompt_head @ s @ prompt_tail) = Inr c"
    and "JSON_parse w (content_of c) = Inr (JObj kvs)"
  shows "summarizeFinancePortuguese w src =
           ([Chat_completion (prompt_head @ s @ prompt_tail)],
            Inr (get_opt (JObj kvs) ''title'', get_opt (JObj kvs) ''html''))"
  using assms by (simp add: summarizeFinancePortuguese_def bind_def lift_def call_def ret_def)

lemma no_keys_eval:
  "handler demo_config world_no_keys (text_request False) =
     (\<lparr>res_status = 200, res_headers = [],
       res_body = JObj
         [(''html'', JStr (html_template ''data:image/png;base64,iVBORw0KGgo='' ''undefined'' ''undefined'')),
          (''imageDataUrl'', JStr ''data:image/png;base64,iVBORw0KGgo='')]\<rparr>,
      [Chat_completion (prompt_head @ ''Selic sobe'' @ prompt_tail),
       Image_generation (image_prompt ''undefined'')])"
  by (simp add: pipeline_defs text_request_def demo_world_def world_no_keys_def demo_parse_def
        demo_completion_def demo_config_def)

lemma bad_json_eval:
  "handler demo_config world_bad_json (text_request False) =
     (\<lparr>res_status = 500, res_headers = [],
       res_body = JObj [(''error'', JStr ''Unexpected token o in JSON at position 0'')]\<rparr>,
      [Chat_completion (prompt_head @ ''Selic sobe'' @ prompt_tail),
       Console_error (Exn ''Unexpected token o in JSON at position 0'')])"
  by (simp add: pipeline_defs text_request_def demo_world_def world_bad_json_def demo_parse_def
        demo_completion_def demo_config_def)

lemma handler_compose_failure_reply:
  assumes "http_method req = ''POST''" and "truthy (get_opt (body req) ''type'')"
    and "snd (acquire w (body req) (get_opt (body req) ''type'')) = Inr (Inr src)"
    and "compose w src = ([Chat_completion p], Inl e)"
  shows "res_status (fst (handler cfg w req)) = 500 \<and>
         res_body (fst (handler cfg w req)) =
           JObj [(''error'', JStr (if message e = [] then ''Erro interno'' else message e))] \<and>
         (\<forall>ev\<in>set (snd (handler cfg w req)). step_of ev \<noteq> Illustrate)"
proof -
  have cf: "snd (compose w src) = Inl e" and ct: "fst (compose w src) = [Chat_completion p]"
    using assms(4) by simp_all
  have h: "handler cfg w req =
           (error_reply e,
            fst (acquire w (body req) (get_opt (body req) ''type'')) @ [Chat_completion p] @
            [Console_error e])"
    using handler_compose_failure [OF assms(1-3) cf] ct by simp
  have "\<forall>ev\<in>set (snd (handler cfg w req)). step_of ev \<noteq> Illustrate"
    using acquire_steps by (fastforce simp: h)
  then show ?thesis by (simp add: h error_reply_def)
qed

lemma content_of_cases:
  "(c = Some txt \<and> txt \<noteq> []) \<or> ((c = None \<or> c = Some []) \<and> txt = ''{}'')
   \<Longrightarrow> content_of c = txt"
  by (auto simp: content_of_def)

lemma compose_summary_failure:
  "summarizeFinancePortuguese w src = (t, Inl e) \<Longrightarrow> compose w src = (t, Inl e)"
  by (simp add: compose_def bind_def)

lemma compose_title_failure:
  "summarizeFinancePortuguese w src = (t, Inr (title, html)) \<Longrightarrow> to_string title = Inl e \<Longrightarrow>
   compose w src = (t, Inl e)"
  by (simp add: compose_def generateImageBase64_def bind_def lift_def)

lemma empty_content_eval:
  "handler demo_config world_empty_content (text_request False) =
     (\<lparr>res_status = 200, res_headers = [],
       res_body = JObj
         [(''html'', JStr (html_template ''data:image/png;base64,iVBORw0KGgo='' ''undefined'' ''undefined'')),
          (''imageDataUrl'', JStr ''data:image/png;base64,iVBORw0KGgo='')]\<rparr>,
      [Chat_completion (prompt_head @ ''Selic sobe'' @ prompt_tail),
       Image_generation (image_prompt ''undefined'')])"
  by (simp add: pipeline_defs text_request_def demo_world_def world_empty_content_def demo_parse_def
        demo_completion_def demo_config_def)

lemma bad_title_eval:
  "handler demo_config world_bad_title (text_request False) =
     (\<lparr>res_status = 500, res_headers = [],
       res_body = JObj [(''error'', JStr ''Cannot convert object to primitive value'')]\<rparr>,
      [Chat_completion (prompt_head @ ''Selic sobe'' @ prompt_tail),
       Console_error (Exn ''Cannot convert object to primitive value'')])"
  by (simp add: pipeline_defs text_request_def demo_world_def world_bad_title_def demo_parse_def
        demo_completion_def demo_config_def bad_title_completion_def)

text \<open>
  C1, as amended. Take a request whose trace holds the chat completion call, the
  content \<open>c\<close> the completion returned, and the text \<open>txt\<close> that line 70 hands to
  the parser: the content itself when it is not empty, and \<^verbatim>\<open>'{}'\<close> in its
  place when it is absent or empty.
  \<^item> If that text is not valid JSON (so, for a content that is not empty and not valid
    JSON), the reply is 500 with the message of the parse error and no image
    generation call is in the trace.
  \<^item> If it parses to an object, the summarizer does not reject it, whatever keys it
    has: it returns the values of title and html, undefined for a missing key. The
    image generation call is then made with the prompt built from the title as a
    template literal prints it, which is \<^verbatim>\<open>undefined\<close> when the key is missing.
    Only when that conversion throws is the reply 500 with no image generation call.
\<close>

theorem invalid_json_is_500:
  assumes "Chat_completion p \<in> set (snd (handler cfg w req))"
    and "chat_completion w p = Inr c"
    and "(c = Some txt \<and> txt \<noteq> []) \<or> ((c = None \<or> c = Some []) \<and> txt = ''{}'')"
  shows "(JSON_parse w txt = Inl e \<longrightarrow>
            res_status (fst (handler cfg w req)) = 500 \<and>
            res_body (fst (handler cfg w req)) =
              JObj [(''error'', JStr (if message e = [] then ''Erro interno'' else message e))] \<and>
            (\<forall>ev\<in>set (snd (handler cfg w req)). step_of ev \<noteq> Illustrate)) \<and>
         (JSON_parse w txt = Inr (JObj kvs) \<longrightarrow>
            (\<exists>src. snd (acquire w (body req) (get_opt (body req) ''type'')) = Inr (Inr src) \<and>
                   summarizeFinancePortuguese w src =
                     ([Chat_completion p],
                      Inr (case map_of kvs ''title'' of None \<Rightarrow> JUndefined | Some v \<Rightarrow> v,
                           case map_of kvs ''html'' of None \<Rightarrow> JUndefined | Some v \<Rightarrow> v))) \<and>
            (to_string (case map_of kvs ''title'' of None \<Rightarrow> JUndefined | Some v \<Rightarrow> v) = Inr tt \<longrightarrow>
               Image_generation (image_prompt tt) \<in> set (snd (handler cfg w req))) \<and>
            (map_of kvs ''title'' = None \<longrightarrow>
               Image_generation (image_prompt ''undefined'') \<in> set (snd (handler cfg w req))) \<and>
            (to_string (case map_of kvs ''title'' of None \<Rightarrow> JUndefined | Some v \<Rightarrow> v) = Inl err \<longrightarrow>
               res_status (fst (handler cfg w req)) = 500 \<and>
               res_body (fst (handler cfg w req)) =
                 JObj [(''error'', JStr (if message err = [] then ''Erro interno'' else message err))] \<and>
               (\<forall>ev\<in>set (snd (handler cfg w req)). step_of ev \<noteq> Illustrate)))"
proof -
  from chat_in_trace [OF assms(1)] obtain src s where
    post: "http_method req = ''POST''" and ty: "truthy (get_opt (body req) ''type'')"
    and a: "snd (acquire w (body req) (get_opt (body req) ''type'')) = Inr (Inr src)"
    and s: "to_string src = Inr s" and p: "p = prompt_head @ s @ prompt_tail"
    by blast
  have c: "chat_completion w (prompt_head @ s @ prompt_tail) = Inr c"
    using assms(2) p by simp
  have ptxt: "content_of c = txt" using assms(3) by (rule content_of_cases)
  have bad: "res_status (fst (handler cfg w req)) = 500 \<and>
            res_body (fst (handler cfg w req)) =
              JObj [(''error'', JStr (if message e = [] then ''Erro interno'' else message e))] \<and>
            (\<forall>ev\<in>set (snd (handler cfg w req)). step_of ev \<noteq> Illustrate)"
    if e: "JSON_parse w txt = Inl e"
  proof -
    have "summarizeFinancePortuguese w src = ([Chat_completion p], Inl e)"
      using summarize_bad_json [OF s c] e ptxt p by simp
    then have "compose w src = ([Chat_completion p], Inl e)" by (rule compose_summary_failure)
    then show ?thesis by (rule handler_compose_failure_reply [OF post ty a])
  qed
  have sm: "summarizeFinancePortuguese w src =
           ([Chat_completion p],
            Inr (case map_of kvs ''title'' of None \<Rightarrow> JUndefined | Some v \<Rightarrow> v,
                 case map_of kvs ''html'' of None \<Rightarrow> JUndefined | Some v \<Rightarrow> v))"
    if o: "JSON_parse w txt = Inr (JObj kvs)"
    using summarize_object [OF s c, of kvs] o ptxt p by simp
  have good: "Image_generation (image_prompt tt) \<in> set (snd (handler cfg w req))"
    if o: "JSON_parse w txt = Inr (JObj kvs)"
      and t: "to_string (case map_of kvs ''title'' of None \<Rightarrow> JUndefined | Some v \<Rightarrow> v) = Inr tt"
    for tt
  proof -
    have "fst (compose w src) = [Chat_completion p, Image_generation (image_prompt tt)]"
      using t by (simp add: compose_trace sm [OF o] generate_trace)
    with handler_trace_prefix [OF post ty a, of cfg] show ?thesis by auto
  qed
  have undef: "Image_generation (image_prompt ''undefined'') \<in> set (snd (handler cfg w req))"
    if o: "JSON_parse w txt = Inr (JObj kvs)" and n: "map_of kvs ''title'' = None"
    using good [OF o, of "''undefined''"] n by simp
  have conv: "res_status (fst (handler cfg w req)) = 500 \<and>
               res_body (fst (handler cfg w req)) =
                 JObj [(''error'', JStr (if message err = [] then ''Erro interno'' else message err))] \<and>
               (\<forall>ev\<in>set (snd (handler cfg w req)). step_of ev \<noteq> Illustrate)"
    if o: "JSON_parse w txt = Inr (JObj kvs)"
      and t: "to_string (case map_of kvs ''title'' of None \<Rightarrow> JUndefined | Some v \<Rightarrow> v) = Inl err"
  proof -
    have "compose w src = ([Chat_completion p], Inl err)"
      using compose_title_failure [OF sm [OF o] t] .
    then show ?thesis by (rule handler_compose_failure_reply [OF post ty a])
  qed
  from bad sm good undef conv a show ?thesis by blast
qed

theorem invalid_json_is_500_witness:
  "res_status (fst (handler demo_config world_bad_json (text_request False))) = 500 \<and>
   res_body (fst (handler demo_config world_bad_json (text_request False))) =
     JObj [(''error'', JStr ''Unexpected token o in JSON at position 0'')] \<and>
   \<not> (\<exists>ev\<in>set (snd (handler demo_config world_bad_json (text_request False))).
         step_of ev = Illustrate) \<and>
   (\<exists>src. summarizeFinancePortuguese world_no_keys src =
            ([Chat_completion (prompt_head @ ''Selic sobe'' @ prompt_tail)],
             Inr (JUndefined, JUndefined))) \<and>
   Image_generation (image_prompt ''undefined'')
     \<in> set (snd (handler demo_config world_no_keys (text_request False))) \<and>
   Image_generation (image_prompt ''undefined'')
     \<in> set (snd (handler demo_config world_empty_content (text_request False))) \<and>
   res_status (fst (handler demo_config world_bad_title (text_request False))) = 500 \<and>
   res_body (fst (handler demo_config world_bad_title (text_request False))) =
     JObj [(''error'', JStr ''Cannot convert object to primitive value'')] \<and>
   \<not> (\<exists>ev\<in>set (snd (handler demo_config world_bad_title (text_request False))).
         step_of ev = Illustrate)"
proof -
  let ?p = "prompt_head @ ''Selic sobe'' @ prompt_tail"
  have a1: "Chat_completion ?p \<in> set (snd (handler demo_config world_bad_json (text_request False)))"
    by (simp add: bad_json_eval)
  have b1: "chat_completion world_bad_json ?p = Inr (Some ''oops'')"
    by (simp add: world_bad_json_def)
  have c1: "JSON_parse world_bad_json ''oops'' = Inl (Exn ''Unexpected token o in JSON at position 0'')"
    by (simp add: world_bad_json_def demo_world_def demo_parse_def demo_completion_def)
  have a2: "Chat_completion ?p \<in> set (snd (handler demo_config world_no_keys (text_request False)))"
    by (simp add: no_keys_eval)
  have b2: "chat_completion world_no_keys ?p = Inr (Some ''{}'')"
    by (simp add: world_no_keys_def)
  have c2: "JSON_parse world_no_keys ''{}'' = Inr (JObj [])"
    by (simp add: world_no_keys_def demo_world_def demo_parse_def demo_completion_def)
  have a3: "Chat_completion ?p \<in> set (snd (handler demo_config world_empty_content (text_request False)))"
    by (simp add: empty_content_eval)
  have b3: "chat_completion world_empty_content ?p = Inr (Some [])"
    by (simp add: world_empty_content_def)
  have c3: "JSON_parse world_empty_content ''{}'' = Inr (JObj [])"
    by (simp add: world_empty_content_def demo_world_def demo_parse_def demo_completion_def)
  have a4: "Chat_completion ?p \<in> set (snd (handler demo_config world_bad_title (text_request False)))"
    by (simp add: bad_title_eval)
  have b4: "chat_completion world_bad_title ?p = Inr (Some bad_title_completion)"
    by (simp add: world_bad_title_def)
  have c4: "JSON_parse world_bad_title bad_title_completion
              = Inr (JObj [(''title'', JObj [(''toString'', JNum ''1'')])])"
    by (simp add: world_bad_title_def)
  have n4: "bad_title_completion \<noteq> []" by (simp add: bad_title_completion_def)
  have t4: "to_string (JObj [(''toString'', JNum ''1'')])
              = Inl (Exn ''Cannot convert object to primitive value'')"
    by simp
  have r1: "res_status (fst (handler demo_config world_bad_json (text_request False))) = 500 \<and>
   res_body (fst (handler demo_config world_bad_json (text_request False))) =
     JObj [(''error'', JStr ''Unexpected token o in JSON at position 0'')] \<and>
   \<not> (\<exists>ev\<in>set (snd (handler demo_config world_bad_json (text_request False))).
         step_of ev = Illustrate)"
    using invalid_json_is_500 [OF a1 b1, of "''oops''" "Exn ''Unexpected token o in JSON at position 0''"] c1
    by auto
  have r2: "(\<exists>src. summarizeFinancePortuguese world_no_keys src =
            ([Chat_completion ?p], Inr (JUndefined, JUndefined))) \<and>
     Image_generation (image_prompt ''undefined'')
       \<in> set (snd (handler demo_config world_no_keys (text_request False)))"
    using invalid_json_is_500 [OF a2 b2, of "''{}''" _ "[]"] c2 by auto
  have r3: "Image_generation (image_prompt ''undefined'')
       \<in> set (snd (handler demo_config world_empty_content (text_request False)))"
    using invalid_json_is_500 [OF a3 b3, of "''{}''" _ "[]"] c3 by auto
  have r4: "res_status (fst (handler demo_config world_bad_title (text_request False))) = 500 \<and>
   res_body (fst (handler demo_config world_bad_title (text_request False))) =
     JObj [(''error'', JStr ''Cannot convert object to primitive value'')] \<and>
   \<not> (\<exists>ev\<in>set (snd (handler demo_config world_bad_title (text_request False))).
         step_of ev = Illustrate)"
    using invalid_json_is_500 [OF a4 b4, of bad_title_completion _ "[(''title'', JObj [(''toString'', JNum ''1'')])]"
                _ "Exn ''Cannot convert object to primitive value''"] c4 n4 t4
    by auto
  from r1 r2 r3 r4 show ?thesis by blast
qed

text \<open>
  C1 as stated fails: a completion whose content is the empty JSON object parses and
  has neither key, yet the reply is 200 and the image generation call is made, with
  the prompt built from undefined.
\<close>

theorem missing_keys_are_not_rejected:
  "chat_completion world_no_keys (prompt_head @ ''Selic sobe'' @ prompt_tail) = Inr (Some ''{}'') \<and>
   JSON_parse world_no_keys (content_of (Some ''{}'')) = Inr (JObj []) \<and>
   handler demo_config world_no_keys (text_request False) =
     (\<lparr>res_status = 200, res_headers = [],
       res_body = JObj
         [(''html'', JStr (html_template ''data:image/png;base64,iVBORw0KGgo='' ''undefined'' ''undefined'')),
          (''imageDataUrl'', JStr ''data:image/png;base64,iVBORw0KGgo='')]\<rparr>,
      [Chat_completion (prompt_head @ ''Selic sobe'' @ prompt_tail),
       Image_generation (image_prompt ''undefined'')])"
  by (simp add: no_keys_eval)
     (simp add: world_no_keys_def demo_world_def demo_parse_def demo_completion_def content_of_def)

section \<open>The order of the calls, and a failed fetch\<close>

lemma in_order_Nil: "in_order []"
  by (simp add: in_order_def)

lemma in_order_const: "(\<forall>e\<in>set t. step_of e = s) \<Longrightarrow> in_order t"
  by (induction t) (auto simp: in_order_def)

lemma in_order_append:
  "in_order (xs @ ys) \<longleftrightarrow>
     in_order xs \<and> in_order ys \<and>
     (\<forall>x\<in>set xs. \<forall>y\<in>set ys. step_rank (step_of x) \<le> step_rank (step_of y))"
  by (auto simp: in_order_def sorted_append)

lemma summarize_no_string:
  "to_string src = Inl e \<Longrightarrow> summarizeFinancePortuguese w src = throw e"
  by (simp add: summarizeFinancePortuguese_def io_simps)

lemma compose_shapes:
  "fst (compose w src) = [] \<or> (\<exists>p. fst (compose w src) = [Chat_completion p]) \<or>
   (\<exists>p q. fst (compose w src) = [Chat_completion p, Image_generation q])"
proof (cases "to_string src")
  case (Inl e)
  then show ?thesis by (simp add: compose_trace summarize_no_string fst_throw snd_throw)
next
  case (Inr s)
  then show ?thesis
    by (auto simp: compose_trace summarize_trace generate_trace split: sum.splits)
qed

lemma publish_shapes:
  "fst (publish cfg w b t h) = [] \<or> (\<exists>ps. fst (publish cfg w b t h) = [Token_exchange ps]) \<or>
   (\<exists>ps e a. fst (publish cfg w b t h) = [Token_exchange ps, Blogger_insert e a t h])"
proof (cases "truthy (get_opt b ''postToBlogger'')")
  case True
  then have "truthy b" by (rule truthy_get_opt)
  from publish_on [OF this True, of cfg w t h] postToBlogger_trace [of cfg w t h]
  show ?thesis by auto
next
  case False
  then show ?thesis by (simp add: publish_off_trace)
qed

lemma compose_in_order:
  "in_order (fst (compose w src)) \<and>
   (\<forall>e\<in>set (fst (compose w src)). 1 \<le> step_rank (step_of e) \<and> step_rank (step_of e) \<le> 2)"
  using compose_shapes [of w src] by (auto simp: in_order_def)

lemma publish_in_order:
  "in_order (fst (publish cfg w b t h)) \<and>
   (\<forall>e\<in>set (fst (publish cfg w b t h)). 3 \<le> step_rank (step_of e) \<and> step_rank (step_of e) \<le> 4)"
  using publish_shapes [of cfg w b t h] by (auto simp: in_order_def)

lemma produce_in_order:
  "in_order (fst (produce cfg w b src)) \<and>
   (\<forall>e\<in>set (fst (produce cfg w b src)). 1 \<le> step_rank (step_of e) \<and> step_rank (step_of e) \<le> 4)"
proof (cases "snd (compose w src)")
  case (Inl e)
  then show ?thesis using compose_in_order [of w src] by (fastforce simp: produce_trace)
next
  case (Inr made)
  then show ?thesis
    using compose_in_order [of w src] publish_in_order [of cfg w b "fst made" "fst (snd made)"]
    by (fastforce simp: produce_trace in_order_append)
qed

lemma acquire_in_order:
  "in_order (fst (acquire w b ty)) \<and>
   (\<forall>e\<in>set (fst (acquire w b ty)). step_rank (step_of e) = 0)"
  using acquire_steps [of _ w b ty] by (auto intro: in_order_const)

lemma try_block_in_order:
  "in_order (fst (try_block cfg w b)) \<and>
   (\<forall>e\<in>set (fst (try_block cfg w b)). step_rank (step_of e) \<le> 4)"
proof (cases "truthy b \<and> truthy (get_opt b ''type'')")
  case False
  then show ?thesis by (auto simp: try_block_trace in_order_Nil)
next
  case True
  show ?thesis
  proof (cases "snd (acquire w b (get_opt b ''type''))")
    case (Inl e)
    with True show ?thesis
      using acquire_in_order [of w b "get_opt b ''type''"] by (simp add: try_block_trace)
  next
    case (Inr x)
    show ?thesis
    proof (cases x)
      case (Inl reply)
      with True Inr show ?thesis
        using acquire_in_order [of w b "get_opt b ''type''"] by (simp add: try_block_trace)
    next
      case (Inr src)
      with True \<open>snd (acquire w b (get_opt b ''type'')) = Inr x\<close> show ?thesis
        using acquire_in_order [of w b "get_opt b ''type''"] produce_in_order [of cfg w b src]
        by (fastforce simp: try_block_trace in_order_append)
    qed
  qed
qed

text \<open>
  The pipeline is linear: in the trace of any request the calls stand in the order of
  the steps, and the log of a thrown error comes last.
\<close>

theorem trace_follows_pipeline: "in_order (snd (handler cfg w req))"
proof (cases "http_method req = ''POST''")
  case False
  then show ?thesis by (simp add: handler_def in_order_Nil)
next
  case True
  have log: "in_order [Console_error err]" for err by (simp add: in_order_def)
  show ?thesis
    using True try_block_in_order [of cfg w "body req"] log
    by (auto simp: handler_post in_order_append split: sum.splits)
qed

text \<open>
  A link whose fetch answers with a status that is not a success gives the reply 500
  whose message carries that status; the fetch is the only call made.
\<close>

theorem link_fetch_failure_is_500:
  assumes "http_method req = ''POST''" and "body req = JObj kvs"
    and "map_of kvs ''type'' = Some (JStr ''link'')" and "map_of kvs ''link'' = Some l"
    and "truthy l" and "fetch_link w l = Inr res" and "\<not> ok res"
  shows "handler cfg w req =
           (\<lparr>res_status = 500, res_headers = [],
             res_body = JObj [(''error'', JStr (''Falha ao buscar link: '' @ string_of_nat (status res)))]\<rparr>,
            [Fetch_link l, Console_error (Exn (''Falha ao buscar link: '' @ string_of_nat (status res)))])"
proof -
  have f: "fetchTextFromLink w l =
             ([Fetch_link l], Inl (Exn (''Falha ao buscar link: '' @ string_of_nat (status res))))"
    using assms(6,7) by (simp add: fetchTextFromLink_def bind_def call_def throw_def)
  have "acquire w (JObj kvs) (JStr ''link'') =
          ([Fetch_link l], Inl (Exn (''Falha ao buscar link: '' @ string_of_nat (status res))))"
    using assms(4,5) by (simp add: acquire_def f bind_def lift_def ret_def)
  then have "try_block cfg w (JObj kvs) =
          ([Fetch_link l], Inl (Exn (''Falha ao buscar link: '' @ string_of_nat (status res))))"
    using assms(3) by (simp add: try_block_unfold bind_def)
  then show ?thesis
    using assms(1,2) by (simp add: handler_def res_json_def stringify_object_def)
qed

theorem link_fetch_failure_is_500_witness:
  "handler demo_config world_link_404 link_request =
     (\<lparr>res_status = 500, res_headers = [],
       res_body = JObj [(''error'', JStr ''Falha ao buscar link: 404'')]\<rparr>,
      [Fetch_link (JStr ''https://x.example/a''),
       Console_error (Exn ''Falha ao buscar link: 404'')])"
proof -
  have s: "string_of_nat 404 = ''404''" by code_simp
  show ?thesis
    using link_fetch_failure_is_500 [of link_request "[(''type'', JStr ''link''), (''link'', JStr ''https://x.example/a'')]"
                "JStr ''https://x.example/a''" world_link_404
                "\<lparr>ok = False, status = 404, content = Inr []\<rparr>" demo_config]
    by (simp add: link_request_def world_link_404_def s)
qed

end
